theory Spec2Isabelle
  imports Complex_Main
begin

section \<open>Numbers\<close>

text \<open>
  The program is TypeScript: every \<^verbatim>\<open>number\<close> is an IEEE-754 double.  A finite double
  is modelled by the rational it denotes, and the type \<open>jsnum\<close> adds the three values
  that are not finite.  The sign of a zero is not modelled (no modelled function
  divides by a zero that a computation made negative).

  The functions that round or floor what they compute, \<^verbatim>\<open>calculateQuestionScore\<close>,
  \<^verbatim>\<open>handleXPGain\<close> and \<^verbatim>\<open>handleQuestProgress\<close>, are modelled in the arithmetic of
  doubles: every operation yields its exact result rounded to the nearest double,
  ties to the even significand (\<open>rnd\<close>), and a result of magnitude \<open>2 ^ 1024\<close> or
  more is infinite (\<open>dbl\<close>).  The level system, the reducer cases and the other
  handlers are modelled over the exact numbers: their sums, differences, products
  and quotients are the exact ones, which are the results of the program whenever
  the exact result is a double, as it is at every concrete input of this theory.
  Levels, list indices and times in milliseconds are of type \<^typ>\<open>int\<close>.
  \<^verbatim>\<open>Math.round\<close> rounds halves upwards, which is what \<^const>\<open>round\<close> does
  (\<open>round x = floor (x + 1/2)\<close>); \<^verbatim>\<open>Math.floor\<close> is \<^const>\<open>floor\<close>.  A level cost that
  can be \<^verbatim>\<open>Infinity\<close> has the type \<open>xnum\<close>.
\<close>

datatype xnum = Fin int | PosInf

datatype jsnum = Num rat | PosInfinity | NegInfinity | NaN

text \<open>The number of binary digits of a positive integer.\<close>

function ilen :: "int \<Rightarrow> int" where
  "ilen n = (if n \<le> 0 then 0 else 1 + ilen (n div 2))"
  by pat_completeness auto
termination
  by (relation "measure nat") auto

declare ilen.simps [simp del]

text \<open>The binary exponent of a positive rational: \<open>2 powi ilog2 x \<le> x < 2 powi (ilog2 x + 1)\<close>.\<close>

definition ilog2 :: "rat \<Rightarrow> int" where
  "ilog2 x = (if x \<ge> 1 then ilen \<lfloor>x\<rfloor> - 1 else - ilen (\<lceil>1 / x\<rceil> - 1))"

text \<open>The nearest integer, ties to the even one.\<close>

definition rne :: "rat \<Rightarrow> int" where
  "rne r = (let f = \<lfloor>r\<rfloor>; d = r - of_int f
            in if d < 1 / 2 then f else if d > 1 / 2 then f + 1
               else if even f then f else f + 1)"

text \<open>
  Rounding to 53 significant bits: a positive \<open>x\<close> with binary exponent \<open>e\<close> is rounded
  to a multiple of \<open>2 powi (e - 52)\<close>, and of \<open>2 powi (- 1074)\<close> in the subnormal range.
\<close>

definition rnd_pos :: "rat \<Rightarrow> rat" where
  "rnd_pos x = (let q = max (ilog2 x - 52) (- 1074)
                in of_int (rne (x / (2 powi q))) * (2 powi q))"

definition rnd :: "rat \<Rightarrow> rat" where
  "rnd x = (if x = 0 then 0 else if x > 0 then rnd_pos x else - rnd_pos (- x))"

definition dbl :: "rat \<Rightarrow> jsnum" where
  "dbl x = (let r = rnd x
            in if r = 0 then Num 0
               else if ilog2 \<bar>r\<bar> \<ge> 1024 then (if r > 0 then PosInfinity else NegInfinity)
               else Num r)"

text \<open>The operators \<^verbatim>\<open>-x\<close>, \<^verbatim>\<open>+\<close>, \<^verbatim>\<open>-\<close>, \<^verbatim>\<open>*\<close>, \<^verbatim>\<open>/\<close> and \<^verbatim>\<open><=\<close> on doubles.\<close>

definition js_neg :: "jsnum \<Rightarrow> jsnum" where
  "js_neg a = (case a of Num x \<Rightarrow> Num (- x) | PosInfinity \<Rightarrow> NegInfinity
               | NegInfinity \<Rightarrow> PosInfinity | NaN \<Rightarrow> NaN)"

fun js_add :: "jsnum \<Rightarrow> jsnum \<Rightarrow> jsnum" where
  "js_add NaN _ = NaN"
| "js_add _ NaN = NaN"
| "js_add PosInfinity NegInfinity = NaN"
| "js_add NegInfinity PosInfinity = NaN"
| "js_add PosInfinity _ = PosInfinity"
| "js_add _ PosInfinity = PosInfinity"
| "js_add NegInfinity _ = NegInfinity"
| "js_add _ NegInfinity = NegInfinity"
| "js_add (Num x) (Num y) = dbl (x + y)"

definition js_sub :: "jsnum \<Rightarrow> jsnum \<Rightarrow> jsnum" where
  "js_sub a b = js_add a (js_neg b)"

text \<open>The sign of a number: \<open>- 1\<close>, \<open>0\<close> or \<open>1\<close>; and the infinity of a sign.\<close>

definition js_sgn :: "jsnum \<Rightarrow> int" where
  "js_sgn a = (case a of Num x \<Rightarrow> (if x > 0 then 1 else if x < 0 then - 1 else 0)
               | PosInfinity \<Rightarrow> 1 | NegInfinity \<Rightarrow> - 1 | NaN \<Rightarrow> 0)"

definition js_inf :: "int \<Rightarrow> jsnum" where
  "js_inf s = (if s > 0 then PosInfinity else if s < 0 then NegInfinity else NaN)"

fun js_mul :: "jsnum \<Rightarrow> jsnum \<Rightarrow> jsnum" where
  "js_mul NaN _ = NaN"
| "js_mul _ NaN = NaN"
| "js_mul (Num x) (Num y) = dbl (x * y)"
| "js_mul a b = js_inf (js_sgn a * js_sgn b)"

fun js_div :: "jsnum \<Rightarrow> jsnum \<Rightarrow> jsnum" where
  "js_div NaN _ = NaN"
| "js_div _ NaN = NaN"
| "js_div (Num x) (Num y) = (if y = 0 then js_inf (js_sgn (Num x)) else dbl (x / y))"
| "js_div (Num x) _ = Num 0"
| "js_div a (Num y) = js_inf (js_sgn a * (if y < 0 then - 1 else 1))"
| "js_div a b = NaN"

fun js_le :: "jsnum \<Rightarrow> jsnum \<Rightarrow> bool" where
  "js_le NaN _ = False"
| "js_le _ NaN = False"
| "js_le NegInfinity _ = True"
| "js_le _ PosInfinity = True"
| "js_le (Num x) (Num y) = (x \<le> y)"
| "js_le _ _ = False"

text \<open>\<^verbatim>\<open>Math.max\<close>, \<^verbatim>\<open>Math.min\<close>, \<^verbatim>\<open>Math.floor\<close> and \<^verbatim>\<open>Math.round\<close>.\<close>

definition js_max :: "jsnum \<Rightarrow> jsnum \<Rightarrow> jsnum" where
  "js_max a b = (if a = NaN \<or> b = NaN then NaN else if js_le a b then b else a)"

definition js_min :: "jsnum \<Rightarrow> jsnum \<Rightarrow> jsnum" where
  "js_min a b = (if a = NaN \<or> b = NaN then NaN else if js_le a b then a else b)"

definition js_floor :: "jsnum \<Rightarrow> jsnum" where
  "js_floor a = (case a of Num x \<Rightarrow> Num (of_int \<lfloor>x\<rfloor>) | _ \<Rightarrow> a)"

definition js_round :: "jsnum \<Rightarrow> jsnum" where
  "js_round a = (case a of Num x \<Rightarrow> Num (of_int \<lfloor>x + 1 / 2\<rfloor>) | _ \<Rightarrow> a)"

section \<open>Level system (lib/levelSystem, class LevelSystem)\<close>

text \<open>
  \<^verbatim>\<open>GameConfig.level\<close> is imported from a configuration module; its three values
  are the fields of \<open>LevelConfig\<close>.
\<close>

record LevelConfig =
  BASE_XP :: rat
  GROWTH_FACTOR :: rat
  MAX_LEVEL :: int

text \<open>
  \<^verbatim>\<open>Math.pow(g, level - 1)\<close>: a non-negative exponent is a power, a negative one
  its reciprocal.
\<close>

definition pow :: "rat \<Rightarrow> int \<Rightarrow> rat" where
  "pow g e = (if 0 \<le> e then g ^ nat e else inverse (g ^ nat (- e)))"

definition calculateXPForLevel :: "LevelConfig \<Rightarrow> int \<Rightarrow> xnum" where
  "calculateXPForLevel cfg level =
     (if level > MAX_LEVEL cfg then PosInf
      else Fin (floor (BASE_XP cfg * pow (GROWTH_FACTOR cfg) (level - 1))))"

text \<open>
  The loop of \<^verbatim>\<open>calculateLevel\<close>, from the state \<open>(level, totalXP)\<close>:
  \<^verbatim>\<open>while (level < MAX_LEVEL && totalXP <= xp) {
    totalXP += calculateXPForLevel(level);
    if (totalXP > xp) break;
    level++;
  }\<close>
  An infinite summand makes \<open>totalXP\<close> infinite, which is above every \<open>xp\<close>.
\<close>

function calculateLevel_loop :: "LevelConfig \<Rightarrow> rat \<Rightarrow> int \<Rightarrow> int \<Rightarrow> int" where
  "calculateLevel_loop cfg xp level totalXP =
     (if level < MAX_LEVEL cfg \<and> of_int totalXP \<le> xp then
        (case calculateXPForLevel cfg level of
           PosInf \<Rightarrow> level
         | Fin v \<Rightarrow>
             (if of_int (totalXP + v) > xp then level
              else calculateLevel_loop cfg xp (level + 1) (totalXP + v)))
      else level)"
  by pat_completeness auto
termination
  by (relation "measure (\<lambda>(cfg, xp, level, totalXP). nat (MAX_LEVEL cfg - level))") auto

definition calculateLevel :: "LevelConfig \<Rightarrow> rat \<Rightarrow> int" where
  "calculateLevel cfg xp = min (calculateLevel_loop cfg xp 1 0) (MAX_LEVEL cfg)"

section \<open>Question score (contexts/GameContext)\<close>

text \<open>
  \<^verbatim>\<open>const baseScore = 100;
  const timeBonus = Math.max(0, 1 - (timeSpent / 30));
  return Math.round(baseScore * (1 + timeBonus));\<close>
  The argument is a finite double.
\<close>

definition calculateQuestionScore :: "rat \<Rightarrow> jsnum" where
  "calculateQuestionScore timeSpent =
     (let baseScore = Num 100;
          timeBonus = js_max (Num 0) (js_sub (Num 1) (js_div (Num timeSpent) (Num 30)))
      in js_round (js_mul baseScore (js_add (Num 1) timeBonus)))"

text \<open>
  The formula of the specification, written as the specification words it, over the
  exact numbers.
\<close>

definition questionScore_spec :: "rat \<Rightarrow> int" where
  "questionScore_spec timeSpent = round (100 * (1 + max 0 (1 - timeSpent / 30)))"

section \<open>Battle state and the battle reducer (BattleContext)\<close>

text \<open>
  One record serves both reducers that keep a battle state.  The fields are the
  properties the reducers write.  \<open>status\<close> is a string at run time
  (\<^verbatim>\<open>'searching'\<close>, \<^verbatim>\<open>'ready'\<close>, \<^verbatim>\<open>'battle'\<close>, \<^verbatim>\<open>'completed'\<close> in the battle
  context; \<^verbatim>\<open>'idle'\<close>, \<^verbatim>\<open>'battle'\<close>, \<^verbatim>\<open>'complete'\<close> in the game context).
  \<open>currentQuestionIndex\<close> is the property the hook \<^verbatim>\<open>useBattle\<close> reads; no reducer
  case writes it, so an object literal leaves it \<^verbatim>\<open>undefined\<close> (\<open>None\<close>) and a spread
  \<^verbatim>\<open>{...state}\<close> keeps what it was.
\<close>

record BattleQuestion =
  question_id :: string
  question :: string
  answers :: "string list"
  correctAnswer :: int

record BattleScore =
  player :: jsnum
  opponent :: jsnum

record BattleRewards =
  reward_xp :: rat
  reward_coins :: rat
  streakBonus :: "rat option"
  timeBonus :: "rat option"
  reward_achievements :: "string list option"

record BattleState =
  status :: string
  inProgress :: bool
  questions :: "BattleQuestion list"
  currentQuestion :: int
  score :: BattleScore
  timeLeft :: rat
  timePerQuestion :: rat
  playerAnswers :: "bool list"
  rewards :: "BattleRewards option"
  currentQuestionIndex :: "int option"

text \<open>
  \<^verbatim>\<open>BATTLE_CONFIG\<close> comes from a configuration module; the reducer reads its
  \<^verbatim>\<open>timePerQuestion\<close>, the hook also \<^verbatim>\<open>questionsPerBattle\<close>.
\<close>

record BattleConfig =
  cfg_timePerQuestion :: rat
  cfg_questionsPerBattle :: int

text \<open>
  The actions of the battle context.  \<^verbatim>\<open>UPDATE_BATTLE_PROGRESS\<close> and \<^verbatim>\<open>END_BATTLE\<close>
  spread a payload of type \<^verbatim>\<open>any\<close> over the state; they are not modelled.
\<close>

datatype BattleAction =
    START_BATTLE
  | SET_STATUS string
  | INIT_BATTLE "BattleQuestion list" rat
  | ADVANCE_QUESTION int
  | SET_TIME_LEFT rat
  | RESET_BATTLE_CTX

definition battle_initialState :: "BattleConfig \<Rightarrow> BattleState" where
  "battle_initialState cfg =
     \<lparr> status = ''searching'', inProgress = False, questions = [], currentQuestion = 0,
       score = \<lparr> player = Num 0, opponent = Num 0 \<rparr>,
       timeLeft = cfg_timePerQuestion cfg, timePerQuestion = cfg_timePerQuestion cfg,
       playerAnswers = [], rewards = None, currentQuestionIndex = None \<rparr>"

fun battleReducer :: "BattleConfig \<Rightarrow> BattleState \<Rightarrow> BattleAction \<Rightarrow> BattleState" where
  "battleReducer cfg state START_BATTLE =
     (battle_initialState cfg)
       \<lparr> inProgress := True, status := ''searching'', timeLeft := cfg_timePerQuestion cfg \<rparr>"
| "battleReducer cfg state (SET_STATUS payload) =
     state \<lparr> status := payload,
             timeLeft := (if payload = ''battle'' then cfg_timePerQuestion cfg
                          else timeLeft state) \<rparr>"
| "battleReducer cfg state (INIT_BATTLE qs tpq) =
     state \<lparr> questions := qs, timePerQuestion := tpq, currentQuestion := 0,
             playerAnswers := [], score := \<lparr> player = Num 0, opponent = Num 0 \<rparr>,
             inProgress := True, status := ''ready'',
             timeLeft := cfg_timePerQuestion cfg \<rparr>"
| "battleReducer cfg state (ADVANCE_QUESTION nextQuestion) =
     (if nextQuestion \<ge> int (length (questions state)) then
        state \<lparr> currentQuestion := int (length (questions state)) - 1,
                status := ''completed'', inProgress := False \<rparr>
      else
        state \<lparr> currentQuestion := nextQuestion,
                timeLeft := cfg_timePerQuestion cfg, status := ''battle'' \<rparr>)"
| "battleReducer cfg state (SET_TIME_LEFT payload) =
     (if \<not> inProgress state \<or> status state \<noteq> ''battle'' then state
      else
        let newTimeLeft = max 0 payload in
        if newTimeLeft = 0 \<and> currentQuestion state < int (length (questions state)) - 1 then
          state \<lparr> timeLeft := cfg_timePerQuestion cfg,
                  currentQuestion := currentQuestion state + 1 \<rparr>
        else
          state \<lparr> timeLeft := newTimeLeft \<rparr>)"
| "battleReducer cfg state RESET_BATTLE_CTX =
     (battle_initialState cfg)
       \<lparr> timeLeft := cfg_timePerQuestion cfg, timePerQuestion := cfg_timePerQuestion cfg \<rparr>"

text \<open>Two concrete battles for the timer: two questions; the first, then the last, is current.\<close>

definition q_a :: BattleQuestion where
  "q_a = \<lparr> question_id = ''q1'', question = ''first'',
           answers = [''a'', ''b'', ''c'', ''d''], correctAnswer = 0 \<rparr>"

definition q_b :: BattleQuestion where
  "q_b = \<lparr> question_id = ''q2'', question = ''second'',
           answers = [''a'', ''b'', ''c'', ''d''], correctAnswer = 1 \<rparr>"

definition cfg30 :: BattleConfig where
  "cfg30 = \<lparr> cfg_timePerQuestion = 30, cfg_questionsPerBattle = 2 \<rparr>"

definition battle_first :: BattleState where
  "battle_first =
     \<lparr> status = ''battle'', inProgress = True, questions = [q_a, q_b], currentQuestion = 0,
       score = \<lparr> player = Num 0, opponent = Num 0 \<rparr>, timeLeft = 1, timePerQuestion = 30,
       playerAnswers = [], rewards = None, currentQuestionIndex = None \<rparr>"

definition battle_last :: BattleState where
  "battle_last = battle_first \<lparr> currentQuestion := 1, playerAnswers := [True] \<rparr>"

section \<open>Game state (contexts/GameContext)\<close>

text \<open>
  The user object, reduced to the properties that the modelled reducer cases and
  handlers read or write.  \<^verbatim>\<open>a || d\<close> on an optional number is \<open>js_or\<close>: \<^verbatim>\<open>undefined\<close>
  and \<open>0\<close> both give the default.
\<close>

definition js_or :: "rat option \<Rightarrow> rat \<Rightarrow> rat" where
  "js_or a d = (case a of None \<Rightarrow> d | Some v \<Rightarrow> if v = 0 then d else v)"

text \<open>The same operator on a number that may be \<^verbatim>\<open>NaN\<close>, which is falsy as well.\<close>

definition js_or_num :: "jsnum option \<Rightarrow> jsnum \<Rightarrow> jsnum" where
  "js_or_num a d = (case a of None \<Rightarrow> d | Some v \<Rightarrow> if v = Num 0 \<or> v = NaN then d else v)"

record RewardMultipliers =
  mult_xp :: rat
  mult_coins :: rat

record Effect =
  effect_id :: string
  effect_type :: string
  effect_value :: rat
  effect_startTime :: string
  effect_duration :: rat
  effect_sourceItem :: "string \<times> string"

record ItemEffect =
  ie_type :: string
  ie_value :: "rat option"
  ie_duration :: "rat option"

record InventoryItem =
  item_id :: string
  item_name :: string
  quantity :: rat
  isEquipped :: bool
  effects :: "ItemEffect list"

datatype QuestStatus = AVAILABLE | IN_PROGRESS | COMPLETED | FAILED | EXPIRED | LOCKED

text \<open>
  The current progress of a requirement and the progress of a quest are numbers that
  the handlers compute with a division, so they are of type \<open>jsnum\<close>; the target of
  a requirement is a finite number.
\<close>

record QuestRequirement =
  req_id :: string
  req_type :: string
  target :: rat
  current :: "jsnum option"

record Quest =
  quest_id :: string
  title :: string
  quest_status :: "QuestStatus option"
  requirements :: "QuestRequirement list"
  xp_reward :: rat
  coin_reward :: rat
  progress :: "jsnum option"
  is_active :: bool

record Achievement =
  ach_id :: string
  ach_title :: string
  ach_unlocked :: bool
  ach_progress :: "rat option"

record Statistics =
  questsCompleted :: rat
  coinsEarned :: rat
  xpGained :: rat

record User =
  user_id :: string
  level :: int
  xp :: rat
  coins :: rat
  streak :: rat
  streakMultiplier :: rat
  rewardMultipliers :: RewardMultipliers
  activeEffects :: "Effect list"
  inventory :: "InventoryItem list"
  quests :: "Quest list"
  achievements :: "Achievement list"
  statistics :: Statistics
  battleStats_error :: "(string \<times> string option) option"

record GameState =
  user :: User
  battle :: BattleState
  loading :: bool
  error :: "string option"

text \<open>
  The payload of \<^verbatim>\<open>UPDATE_USER_PROFILE\<close> is a \<^verbatim>\<open>Partial<User>\<close>; the handlers send
  \<^verbatim>\<open>coins\<close> or \<^verbatim>\<open>rewardMultipliers\<close>.
\<close>

record UserPatch =
  patch_coins :: "rat option"
  patch_rewardMultipliers :: "RewardMultipliers option"

record LevelUpRewards =
  lu_xp :: rat
  lu_coins :: rat
  lu_items :: "InventoryItem list"

text \<open>
  The actions that the modelled handlers dispatch.  \<^verbatim>\<open>ADD_ACTIVITY\<close> and
  \<^verbatim>\<open>UPDATE_BATTLE_TIME\<close> have no case in \<^verbatim>\<open>gameReducer\<close> and reach its \<^verbatim>\<open>default\<close>.
\<close>

datatype GameAction =
    INITIALIZE_BATTLE "BattleQuestion list" rat
  | ANSWER_QUESTION bool rat
  | END_BATTLE BattleRewards
  | RESET_BATTLE
  | ADD_XP rat "rat option"
  | ADD_COINS rat
  | UPDATE_USER_PROFILE UserPatch
  | LEVEL_UP int LevelUpRewards
  | UPDATE_QUESTS "Quest list"
  | UPDATE_QUEST_PROGRESS string string jsnum
  | COMPLETE_QUEST Quest rat rat
  | SET_BATTLE_ERROR string "string option"
  | ADD_EFFECT Effect
  | REMOVE_EFFECT string string
  | ADD_ACTIVITY
  | UPDATE_BATTLE_TIME rat

fun handleBattleStateUpdate :: "BattleState \<Rightarrow> GameAction \<Rightarrow> BattleState" where
  "handleBattleStateUpdate battleState (INITIALIZE_BATTLE qs tpq) =
     \<lparr> status = ''battle'', inProgress = True, questions = qs, currentQuestion = 0,
       score = \<lparr> player = Num 0, opponent = Num 0 \<rparr>, timeLeft = tpq, timePerQuestion = tpq,
       playerAnswers = [], rewards = None, currentQuestionIndex = None \<rparr>"
| "handleBattleStateUpdate battleState (ANSWER_QUESTION isCorrect timeSpent) =
     (let newScore =
            (if isCorrect
             then js_add (player (score battleState)) (calculateQuestionScore timeSpent)
             else player (score battleState))
      in battleState
           \<lparr> currentQuestion := currentQuestion battleState + 1,
             score := (score battleState) \<lparr> player := newScore \<rparr>,
             playerAnswers := playerAnswers battleState @ [isCorrect],
             timeLeft := timePerQuestion battleState \<rparr>)"
| "handleBattleStateUpdate battleState (END_BATTLE r) =
     battleState \<lparr> status := ''complete'', inProgress := False, rewards := Some r \<rparr>"
| "handleBattleStateUpdate battleState RESET_BATTLE =
     \<lparr> status = ''idle'', inProgress = False, questions = [], currentQuestion = 0,
       score = \<lparr> player = Num 0, opponent = Num 0 \<rparr>, timeLeft = 0, timePerQuestion = 0,
       playerAnswers = [], rewards = None, currentQuestionIndex = None \<rparr>"
| "handleBattleStateUpdate battleState _ = battleState"

text \<open>
  \<^verbatim>\<open>handleQuestAction\<close>, cases \<^verbatim>\<open>UPDATE_QUEST_PROGRESS\<close> and \<^verbatim>\<open>COMPLETE_QUEST\<close> (the
  variant with a payload).  \<^verbatim>\<open>calculateQuestProgress\<close> is imported from
  \<^verbatim>\<open>utils/questUtils\<close> and is the parameter \<open>cqp\<close>.
\<close>

definition quest_completion_achievement :: "Quest \<Rightarrow> Quest \<Rightarrow> Achievement" where
  "quest_completion_achievement q completedQuest =
     \<lparr> ach_id = ''quest_complete_'' @ quest_id q,
       ach_title = ''Completed: '' @ title completedQuest,
       ach_unlocked = True, ach_progress = Some 100 \<rparr>"

fun handleQuestAction :: "(Quest \<Rightarrow> User \<Rightarrow> jsnum) \<Rightarrow> GameState \<Rightarrow> GameAction \<Rightarrow> GameState" where
  "handleQuestAction cqp state (UPDATE_QUEST_PROGRESS questId requirementType p) =
     state \<lparr> user := (user state)
       \<lparr> quests := map (\<lambda>q.
            if quest_id q \<noteq> questId then q
            else
              let newRequirements = map (\<lambda>req.
                     if req_type req \<noteq> requirementType then req
                     else req \<lparr> current := Some p \<rparr>) (requirements q);
                  newProgress = cqp (q \<lparr> requirements := newRequirements \<rparr>) (user state)
              in q \<lparr> requirements := newRequirements, progress := Some newProgress \<rparr>)
          (quests (user state)) \<rparr> \<rparr>"
| "handleQuestAction cqp state (COMPLETE_QUEST q rxp rcoins) =
     (case find (\<lambda>q'. quest_id q' = quest_id q) (quests (user state)) of
        None \<Rightarrow> state
      | Some completedQuest \<Rightarrow>
          state \<lparr> user := (user state)
            \<lparr> xp := xp (user state) + rxp,
              coins := coins (user state) + rcoins,
              inventory := inventory (user state) @ [],
              quests := map (\<lambda>q'.
                   if quest_id q' = quest_id q
                   then q' \<lparr> quest_status := Some COMPLETED, progress := Some (Num 100) \<rparr>
                   else q') (quests (user state)),
              achievements :=
                achievements (user state) @ [quest_completion_achievement q completedQuest],
              statistics := (statistics (user state))
                \<lparr> questsCompleted := questsCompleted (statistics (user state)) + 1 \<rparr> \<rparr> \<rparr>)"
| "handleQuestAction cqp state _ = state"

fun gameReducer :: "(Quest \<Rightarrow> User \<Rightarrow> jsnum) \<Rightarrow> GameState \<Rightarrow> GameAction \<Rightarrow> GameState" where
  "gameReducer cqp state (INITIALIZE_BATTLE qs tpq) =
     state \<lparr> battle := handleBattleStateUpdate (battle state) (INITIALIZE_BATTLE qs tpq) \<rparr>"
| "gameReducer cqp state (ANSWER_QUESTION c t) =
     state \<lparr> battle := handleBattleStateUpdate (battle state) (ANSWER_QUESTION c t) \<rparr>"
| "gameReducer cqp state (END_BATTLE r) =
     state \<lparr> battle := handleBattleStateUpdate (battle state) (END_BATTLE r) \<rparr>"
| "gameReducer cqp state RESET_BATTLE =
     state \<lparr> battle := handleBattleStateUpdate (battle state) RESET_BATTLE \<rparr>"
| "gameReducer cqp state (ADD_XP amount multiplier) =
     (let m = (case multiplier of None \<Rightarrow> 1 | Some v \<Rightarrow> v);
          totalXP = amount * m * mult_xp (rewardMultipliers (user state))
      in state \<lparr> user := (user state)
           \<lparr> xp := xp (user state) + totalXP,
             statistics := (statistics (user state))
               \<lparr> xpGained := xpGained (statistics (user state)) + totalXP \<rparr> \<rparr> \<rparr>)"
| "gameReducer cqp state (ADD_COINS amount) =
     (let totalCoins = amount * mult_coins (rewardMultipliers (user state))
      in state \<lparr> user := (user state)
           \<lparr> coins := coins (user state) + totalCoins,
             statistics := (statistics (user state))
               \<lparr> coinsEarned := coinsEarned (statistics (user state)) + totalCoins \<rparr> \<rparr> \<rparr>)"
| "gameReducer cqp state (UPDATE_USER_PROFILE payload) =
     state \<lparr> user := (user state)
       \<lparr> coins := (case patch_coins payload of None \<Rightarrow> coins (user state) | Some c \<Rightarrow> c),
         rewardMultipliers :=
           (case patch_rewardMultipliers payload of
              None \<Rightarrow> rewardMultipliers (user state) | Some r \<Rightarrow> r) \<rparr> \<rparr>"
| "gameReducer cqp state (LEVEL_UP l r) =
     state \<lparr> user := (user state)
       \<lparr> level := l,
         xp := xp (user state) + lu_xp r,
         coins := coins (user state) + lu_coins r,
         inventory := inventory (user state) @ lu_items r \<rparr> \<rparr>"
| "gameReducer cqp state (UPDATE_QUESTS active) =
     state \<lparr> user := (user state) \<lparr> quests := active \<rparr> \<rparr>"
| "gameReducer cqp state (UPDATE_QUEST_PROGRESS i ty p) =
     handleQuestAction cqp state (UPDATE_QUEST_PROGRESS i ty p)"
| "gameReducer cqp state (COMPLETE_QUEST q rxp rcoins) =
     handleQuestAction cqp state (COMPLETE_QUEST q rxp rcoins)"
| "gameReducer cqp state (SET_BATTLE_ERROR message code) =
     state \<lparr> user := (user state) \<lparr> battleStats_error := Some (message, code) \<rparr> \<rparr>"
| "gameReducer cqp state (ADD_EFFECT effect) =
     state \<lparr> user := (user state)
       \<lparr> activeEffects := activeEffects (user state) @ [effect] \<rparr> \<rparr>"
| "gameReducer cqp state (REMOVE_EFFECT effectId effectType) =
     (if effectType \<noteq> ''xp'' \<and> effectType \<noteq> ''coins'' then state
      else state \<lparr> user := (user state)
        \<lparr> activeEffects := filter (\<lambda>e. effect_id e \<noteq> effectId) (activeEffects (user state)),
          rewardMultipliers :=
            (if effectType = ''xp''
             then (rewardMultipliers (user state))
                    \<lparr> mult_xp := mult_xp (rewardMultipliers (user state))
                                  / (1 + (if effectType = ''xp'' then 1 / 2 else 1)) \<rparr>
             else (rewardMultipliers (user state))
                    \<lparr> mult_coins := mult_coins (rewardMultipliers (user state))
                                     / (1 + (if effectType = ''xp'' then 1 / 2 else 1)) \<rparr>) \<rparr> \<rparr>)"
| "gameReducer cqp state ADD_ACTIVITY = state"
| "gameReducer cqp state (UPDATE_BATTLE_TIME t) = state"

text \<open>
  A handler runs against the state of the render that created it and dispatches
  actions; the store applies them in order.  A handler is modelled as the list of
  actions it dispatches and the error it throws, if any.
\<close>

datatype app_error =
    InsufficientCoins
  | ItemNotFound
  | ItemNotEquipped
  | ItemHasNoEffects
  | UnknownEffectType string
  | NoCurrentQuestion
  | SaveFailed string
  | DatabaseError string

type_synonym outcome = "GameAction list \<times> app_error option"

definition dispatchAll :: "(Quest \<Rightarrow> User \<Rightarrow> jsnum) \<Rightarrow> GameState \<Rightarrow> GameAction list \<Rightarrow> GameState" where
  "dispatchAll cqp state acts = foldl (gameReducer cqp) state acts"

section \<open>Coins and XP (handleCoinTransaction, handleXPGain)\<close>

definition handleCoinTransaction :: "GameState \<Rightarrow> rat \<Rightarrow> string \<Rightarrow> outcome" where
  "handleCoinTransaction state amount source =
     (let u = user state;
          newAmount =
            (if source = ''earn''
             then of_int (round (amount * mult_coins (rewardMultipliers u) * streakMultiplier u))
             else amount);
          newBalance = (if source = ''earn'' then coins u + newAmount else coins u - newAmount)
      in if newBalance < 0 then ([], Some InsufficientCoins)
         else ([UPDATE_USER_PROFILE
                  \<lparr> patch_coins = Some newBalance, patch_rewardMultipliers = None \<rparr>], None))"

text \<open>
  \<^verbatim>\<open>LevelSystem.calculateLevelUpRewards\<close>.  \<^verbatim>\<open>GameConfig.rewards.levelUp\<close> is the
  record \<open>RewardConfig\<close>; \<open>show_int\<close> prints the level inside the reward ids.  The
  values \<^verbatim>\<open>level * xpMultiplier\<close> and \<^verbatim>\<open>level * coinMultiplier\<close> are doubles.
\<close>

record RewardConfig =
  xpMultiplier :: rat
  coinMultiplier :: rat

function show_nat :: "nat \<Rightarrow> string" where
  "show_nat n =
     (if n < 10 then [''0123456789'' ! n]
      else show_nat (n div 10) @ [''0123456789'' ! (n mod 10)])"
  by pat_completeness auto
termination
  by (relation "measure (\<lambda>n. n)") auto

definition show_int :: "int \<Rightarrow> string" where
  "show_int i = (if i < 0 then ''-'' @ show_nat (nat (- i)) else show_nat (nat i))"

record Reward =
  reward_id :: string
  reward_type :: string
  reward_value :: "rat + string"
  rarity :: string

definition calculateLevelUpRewards :: "RewardConfig \<Rightarrow> int \<Rightarrow> Reward list" where
  "calculateLevelUpRewards rc l =
     [ \<lparr> reward_id = ''level_'' @ show_int l @ ''_xp'', reward_type = ''xp'',
         reward_value = Inl (rnd (of_int l * xpMultiplier rc)),
         rarity = (if l mod 10 = 0 then ''legendary''
                   else if l mod 5 = 0 then ''epic'' else ''rare'') \<rparr>,
       \<lparr> reward_id = ''level_'' @ show_int l @ ''_coins'', reward_type = ''coins'',
         reward_value = Inl (rnd (of_int l * coinMultiplier rc)), rarity = ''common'' \<rparr> ]
     @ (if l mod 10 = 0 then
          [ \<lparr> reward_id = ''level_'' @ show_int l @ ''_special'', reward_type = ''item'',
              reward_value = Inr ''Legendary Lootbox'', rarity = ''legendary'' \<rparr> ]
        else if l mod 5 = 0 then
          [ \<lparr> reward_id = ''level_'' @ show_int l @ ''_special'', reward_type = ''item'',
              reward_value = Inr ''Epic Lootbox'', rarity = ''epic'' \<rparr> ]
        else [])"

text \<open>
  \<^verbatim>\<open>rewardsArray.find(r => r.type === t)?.value as number || 0\<close> and the items built
  from the rewards of type \<^verbatim>\<open>'item'\<close>.
\<close>

definition reward_number :: "Reward list \<Rightarrow> string \<Rightarrow> rat" where
  "reward_number rs t =
     (case find (\<lambda>r. reward_type r = t) rs of
        Some r \<Rightarrow> (case reward_value r of Inl v \<Rightarrow> js_or (Some v) 0 | Inr _ \<Rightarrow> 0)
      | None \<Rightarrow> 0)"

definition reward_items :: "Reward list \<Rightarrow> InventoryItem list" where
  "reward_items rs =
     map (\<lambda>r. \<lparr> item_id = reward_id r,
                item_name = (case reward_value r of Inr n \<Rightarrow> n | Inl _ \<Rightarrow> []),
                quantity = 1, isEquipped = False, effects = [] \<rparr>)
         (filter (\<lambda>r. reward_type r = ''item'') rs)"

text \<open>
  \<^verbatim>\<open>handleXPGain\<close>.  \<^verbatim>\<open>calculateLevel\<close> is imported there from \<^verbatim>\<open>utils/gameUtils\<close> and
  is the parameter \<open>calcLevel\<close>.  The level-up coins go through
  \<^verbatim>\<open>handleCoinTransaction\<close> with the source \<^verbatim>\<open>'level_up'\<close>; when that throws, the
  rest of the handler is skipped.  \<^verbatim>\<open>handleItemTransaction\<close> with the type
  \<^verbatim>\<open>'reward'\<close> writes the inventory table and dispatches at most \<^verbatim>\<open>ADD_ACTIVITY\<close>;
  the database writes and \<^verbatim>\<open>checkAchievements\<close> are outside the model.
  The two products and the sum of the handler are doubles:
  \<^verbatim>\<open>const multiplier = state.user.rewardMultipliers.xp * state.user.streakMultiplier;
  const totalXP = Math.round(amount * multiplier);
  const newLevel = calculateLevel(state.user.xp + totalXP);\<close>
  (no overflow: the amounts stay below \<open>2 ^ 1024\<close>).
\<close>

definition handleXPGain :: "(rat \<Rightarrow> int) \<Rightarrow> RewardConfig \<Rightarrow> GameState \<Rightarrow> rat \<Rightarrow> outcome" where
  "handleXPGain calcLevel rc state amount =
     (let u = user state;
          multiplier = rnd (mult_xp (rewardMultipliers u) * streakMultiplier u);
          totalXP = of_int (round (rnd (amount * multiplier)));
          first = [ADD_ACTIVITY, ADD_XP totalXP (Some multiplier)];
          newLevel = calcLevel (rnd (xp u + totalXP))
      in if newLevel > level u then
           let rewardsArray = calculateLevelUpRewards rc newLevel;
               r = \<lparr> lu_xp = reward_number rewardsArray ''xp'',
                     lu_coins = reward_number rewardsArray ''coins'',
                     lu_items = reward_items rewardsArray \<rparr>;
               coinTx = handleCoinTransaction state (lu_coins r) ''level_up''
           in (first @ [LEVEL_UP newLevel r] @ fst coinTx
                 @ (if snd coinTx = None then map (\<lambda>_. ADD_ACTIVITY) (lu_items r) else []),
               snd coinTx)
         else (first, None))"

section \<open>Item effects (useItemEffect)\<close>

text \<open>
  For every effect of the item the handler draws an id (\<open>uuid k\<close> for the \<open>k\<close>-th
  effect), schedules the removal with \<^verbatim>\<open>setTimeout\<close>, and dispatches by the type of
  the effect.  The result is the actions dispatched now, the actions scheduled
  (with their delay in milliseconds), and the error thrown, if any.
\<close>

type_synonym effect_outcome = "GameAction list \<times> (rat \<times> GameAction) list \<times> app_error option"

fun applyEffects ::
  "User \<Rightarrow> (nat \<Rightarrow> string) \<Rightarrow> string \<Rightarrow> InventoryItem \<Rightarrow> nat \<Rightarrow> ItemEffect list \<Rightarrow> effect_outcome"
where
  "applyEffects u uuid now item k [] = ([], [], None)"
| "applyEffects u uuid now item k (e # es) =
     (let effectId = uuid k;
          d = js_or (ie_duration e) 300;
          v = js_or (ie_value e) (3 / 2);
          timer = (d * 1000, REMOVE_EFFECT effectId (ie_type e));
          eff = \<lparr> effect_id = effectId, effect_type = ie_type e, effect_value = v,
                  effect_startTime = now, effect_duration = d,
                  effect_sourceItem = (item_id item, item_name item) \<rparr>;
          rest = applyEffects u uuid now item (Suc k) es;
          continue = (\<lambda>acts. (acts @ fst rest, timer # fst (snd rest), snd (snd rest)))
      in if ie_type e = ''xp_boost'' then
           continue [ADD_EFFECT eff,
                     UPDATE_USER_PROFILE
                       \<lparr> patch_coins = None,
                         patch_rewardMultipliers = Some ((rewardMultipliers u)
                           \<lparr> mult_xp := mult_xp (rewardMultipliers u) * v \<rparr>) \<rparr>]
         else if ie_type e = ''coin_boost'' then
           continue [ADD_EFFECT eff,
                     UPDATE_USER_PROFILE
                       \<lparr> patch_coins = None,
                         patch_rewardMultipliers = Some ((rewardMultipliers u)
                           \<lparr> mult_coins := mult_coins (rewardMultipliers u) * v \<rparr>) \<rparr>]
         else if ie_type e = ''score_boost'' \<or> ie_type e = ''time_boost'' then
           continue [ADD_EFFECT eff]
         else ([], [timer], Some (UnknownEffectType (ie_type e))))"

definition useItemEffect :: "GameState \<Rightarrow> (nat \<Rightarrow> string) \<Rightarrow> string \<Rightarrow> string \<Rightarrow> effect_outcome" where
  "useItemEffect state uuid now itemId =
     (case find (\<lambda>i. item_id i = itemId) (inventory (user state)) of
        None \<Rightarrow> ([], [], Some ItemNotFound)
      | Some itemInInventory \<Rightarrow>
          if \<not> isEquipped itemInInventory then ([], [], Some ItemNotEquipped)
          else if effects itemInInventory = [] then ([], [], Some ItemHasNoEffects)
          else
            let r = applyEffects (user state) uuid now itemInInventory 0
                      (effects itemInInventory)
            in if snd (snd r) = None then (fst r @ [ADD_ACTIVITY], fst (snd r), None)
               else r)"

section \<open>Quest progress (handleQuestProgress)\<close>

text \<open>
  The handler keeps the progress of the requirements in a \<^verbatim>\<open>Map\<close> keyed by the type
  of the requirement: a later requirement of the same type overwrites the entry.
  An entry is \<^verbatim>\<open>{current: req.requirement_value.current || 0, target}\<close>.
\<close>

type_synonym progressMap = "string \<rightharpoonup> (jsnum \<times> rat)"

definition buildProgressMap :: "QuestRequirement list \<Rightarrow> progressMap" where
  "buildProgressMap reqs =
     foldl (\<lambda>m req. m(req_type req \<mapsto> (js_or_num (current req) (Num 0), target req)))
       Map.empty reqs"

text \<open>\<^verbatim>\<open>Math.min(currentData.current + progress, currentData.target)\<close>\<close>

definition bumpProgress :: "progressMap \<Rightarrow> string \<Rightarrow> rat \<Rightarrow> progressMap" where
  "bumpProgress m ty inc =
     (case m ty of
        None \<Rightarrow> m
      | Some (c, t) \<Rightarrow> m(ty \<mapsto> (js_min (js_add c (Num inc)) (Num t), t)))"

text \<open>\<^verbatim>\<open>progressMap.get(req.type)?.current || 0\<close>\<close>

definition mapCurrent :: "progressMap \<Rightarrow> string \<Rightarrow> jsnum" where
  "mapCurrent m ty = js_or_num (map_option fst (m ty)) (Num 0)"

definition updatedRequirements :: "progressMap \<Rightarrow> QuestRequirement list \<Rightarrow> QuestRequirement list" where
  "updatedRequirements m reqs =
     map (\<lambda>req. req \<lparr> target := target req, current := Some (mapCurrent m (req_type req)) \<rparr>) reqs"

text \<open>\<^verbatim>\<open>progress ? progress.current >= progress.target : false\<close> for every requirement.\<close>

definition allCompleted :: "progressMap \<Rightarrow> QuestRequirement list \<Rightarrow> bool" where
  "allCompleted m reqs =
     list_all (\<lambda>req. case m (req_type req) of None \<Rightarrow> False | Some (c, t) \<Rightarrow> js_le (Num t) c)
       reqs"

text \<open>
  \<^verbatim>\<open>const totalTarget = updatedRequirements.reduce((sum, req) => sum + target, 0);
  const currentTotal = updatedRequirements.reduce((sum, req) =>
    sum + (progressMap.get(req.type)?.current || 0), 0);
  const overallProgress = Math.floor((currentTotal / totalTarget) * 100);\<close>
  With a total target of 0 the quotient is \<^verbatim>\<open>NaN\<close> or infinite, and so is the result.
\<close>

definition overallProgress :: "progressMap \<Rightarrow> QuestRequirement list \<Rightarrow> jsnum" where
  "overallProgress m reqs =
     (let totalTarget = foldl (\<lambda>acc req. js_add acc (Num (target req))) (Num 0) reqs;
          currentTotal = foldl (\<lambda>acc req. js_add acc (mapCurrent m (req_type req))) (Num 0) reqs
      in js_floor (js_mul (js_div currentTotal totalTarget) (Num 100)))"

text \<open>
  The actions that \<^verbatim>\<open>handleQuestProgress\<close> dispatches.  The write to the table
  \<^verbatim>\<open>user_quests\<close> is outside the model.
\<close>

definition handleQuestProgress ::
  "GameState \<Rightarrow> Quest \<Rightarrow> QuestRequirement \<Rightarrow> rat \<Rightarrow> GameAction list" where
  "handleQuestProgress state q requirement inc =
     (case find (\<lambda>q'. quest_id q' = quest_id q \<and> quest_status q' \<noteq> Some COMPLETED \<and> is_active q')
                (quests (user state)) of
        None \<Rightarrow> []
      | Some userQuest \<Rightarrow>
          let m = bumpProgress (buildProgressMap (requirements userQuest))
                    (req_type requirement) inc;
              reqs' = updatedRequirements m (requirements userQuest)
          in if allCompleted m reqs' \<and> quest_status userQuest \<noteq> Some COMPLETED then
               [ ADD_XP (xp_reward q) (Some (mult_xp (rewardMultipliers (user state)))),
                 ADD_COINS (coin_reward q),
                 ADD_ACTIVITY,
                 COMPLETE_QUEST q (xp_reward q) (coin_reward q),
                 UPDATE_QUEST_PROGRESS (quest_id q) (req_type requirement) (Num 100) ]
             else
               let overall = overallProgress m reqs'
               in [ UPDATE_QUEST_PROGRESS (quest_id q) (req_type requirement) overall,
                    UPDATE_QUESTS
                      (map (\<lambda>q'. if quest_id q' = quest_id q
                                  then q' \<lparr> requirements := reqs', progress := Some overall \<rparr>
                                  else q')
                           (quests (user state))) ])"

section \<open>Answer submission (hook useBattle, handleAnswer)\<close>

text \<open>
  The handler of the hook \<^verbatim>\<open>useBattle\<close>:
  \<^verbatim>\<open>if (!mountedRef.current || state.battle.status !== 'active') return;
  try {
    const currentQuestion = state.battle.questions[state.battle.currentQuestionIndex];
    if (!currentQuestion) throw new Error('No current question found');
    const isCorrect = BattleService.checkAnswer(currentQuestion, answer);
    dispatch({type: 'ANSWER_QUESTION', payload: {isCorrect, timeSpent}});
    await BattleService.saveBattleProgress(...);
  } catch (error) { await handleBattleError(error as Error); }\<close>
  \<^verbatim>\<open>questions[i]\<close> is \<^verbatim>\<open>undefined\<close> for an index that is \<^verbatim>\<open>undefined\<close> or out of range.
  The class \<^verbatim>\<open>BattleService\<close> has no member \<^verbatim>\<open>checkAnswer\<close>, so the call of it throws a
  \<^verbatim>\<open>TypeError\<close> (with the message \<open>checkAnswer_TypeError\<close>) before the dispatch of
  \<^verbatim>\<open>ANSWER_QUESTION\<close> is reached.  Either error goes to \<^verbatim>\<open>handleBattleError\<close>, which
  dispatches \<^verbatim>\<open>SET_BATTLE_ERROR\<close> with the message and no code; the handler itself never
  rejects.  The write to the table of saves in \<^verbatim>\<open>handleBattleError\<close> is outside the
  model.
\<close>

definition questionAt :: "BattleState \<Rightarrow> BattleQuestion option" where
  "questionAt b =
     (case currentQuestionIndex b of
        None \<Rightarrow> None
      | Some i \<Rightarrow> if 0 \<le> i \<and> i < int (length (questions b))
                  then Some (questions b ! nat i) else None)"

definition checkAnswer_TypeError :: string where
  "checkAnswer_TypeError = ''BattleService.checkAnswer is not a function''"

definition handleAnswer :: "bool \<Rightarrow> GameState \<Rightarrow> string \<Rightarrow> rat \<Rightarrow> GameAction list" where
  "handleAnswer mounted state answer timeSpent =
     (if \<not> mounted \<or> status (battle state) \<noteq> ''active'' then []
      else
        (case questionAt (battle state) of
           None \<Rightarrow> [SET_BATTLE_ERROR ''No current question found'' None]
         | Some currentQ \<Rightarrow> [SET_BATTLE_ERROR checkAnswer_TypeError None]))"

text \<open>Submitting an answer: the handler of the current render, then the store.\<close>

definition submitAnswer ::
  "(Quest \<Rightarrow> User \<Rightarrow> jsnum) \<Rightarrow> bool \<Rightarrow> GameState \<Rightarrow> string \<Rightarrow> rat \<Rightarrow> GameState" where
  "submitAnswer cqp mounted state answer timeSpent =
     dispatchAll cqp state (handleAnswer mounted state answer timeSpent)"

section \<open>Battle saves (BattleService.recoverBattleState)\<close>

text \<open>
  The table \<^verbatim>\<open>battle_saves\<close> lives in the hosted database.  It is modelled as a
  list of rows; \<open>db_fault\<close> is the error code with which the next query fails, if it
  does.  \<open>sv_timestamp\<close> is \<^verbatim>\<open>new Date(timestamp).getTime()\<close> in milliseconds,
  \<open>None\<close> when the string is no date (\<^verbatim>\<open>NaN\<close>, for which every comparison is false).
\<close>

record SavedBattle =
  sv_questions :: "BattleQuestion list"
  sv_currentQuestion :: int
  sv_playerAnswers :: "bool list"
  sv_score :: BattleScore
  sv_timeLeft :: rat
  sv_status :: string
  sv_lastError :: "string option"
  sv_timestamp :: "int option"

record SaveRow =
  row_id :: nat
  row_user_id :: string
  created_at :: int
  battle_state :: "SavedBattle option"

record Database =
  battle_saves :: "SaveRow list"
  db_fault :: "string option"

text \<open>
  \<^verbatim>\<open>.eq('user_id', userId).order('created_at', {ascending: false}).limit(1).single()\<close>:
  the newest row of the user, or the error \<^verbatim>\<open>PGRST116\<close> when there is none.
\<close>

fun newest :: "SaveRow list \<Rightarrow> SaveRow option" where
  "newest [] = None"
| "newest (r # rs) =
     (case newest rs of
        None \<Rightarrow> Some r
      | Some r' \<Rightarrow> if created_at r' > created_at r then Some r' else Some r)"

definition selectLatestSave :: "Database \<Rightarrow> string \<Rightarrow> string + SaveRow" where
  "selectLatestSave db userId =
     (case db_fault db of
        Some code \<Rightarrow> Inl code
      | None \<Rightarrow>
          (case newest (filter (\<lambda>r. row_user_id r = userId) (battle_saves db)) of
             None \<Rightarrow> Inl ''PGRST116''
           | Some r \<Rightarrow> Inr r))"

definition deleteSave :: "Database \<Rightarrow> nat \<Rightarrow> Database" where
  "deleteSave db i = db \<lparr> battle_saves := filter (\<lambda>r. row_id r \<noteq> i) (battle_saves db) \<rparr>"

definition hourInMs :: int where
  "hourInMs = 60 * 60 * 1000"

definition recoverBattleState ::
  "Database \<Rightarrow> string \<Rightarrow> int \<Rightarrow> (app_error + SavedBattle option) \<times> Database" where
  "recoverBattleState db userId currentTime =
     (case selectLatestSave db userId of
        Inl code \<Rightarrow>
          if code = ''PGRST116'' then (Inr None, db) else (Inl (DatabaseError code), db)
      | Inr data \<Rightarrow>
          (case battle_state data of
             None \<Rightarrow> (Inr None, db)
           | Some saved \<Rightarrow>
               if (case sv_timestamp saved of
                     None \<Rightarrow> False
                   | Some savedTime \<Rightarrow> currentTime - savedTime > hourInMs)
               then (Inr None, deleteSave db (row_id data))
               else (Inr (Some saved), deleteSave db (row_id data))))"

section \<open>Concrete inputs\<close>

definition levelConfig0 :: LevelConfig where
  "levelConfig0 = \<lparr> BASE_XP = 1000, GROWTH_FACTOR = 3 / 2, MAX_LEVEL = 50 \<rparr>"

definition rewardConfig0 :: RewardConfig where
  "rewardConfig0 = \<lparr> xpMultiplier = 100, coinMultiplier = 50 \<rparr>"

definition xp_potion :: InventoryItem where
  "xp_potion =
     \<lparr> item_id = ''xp_potion'', item_name = ''XP Potion'', quantity = 1, isEquipped = True,
       effects = [\<lparr> ie_type = ''xp_boost'', ie_value = Some (3 / 2), ie_duration = Some 300 \<rparr>] \<rparr>"

definition coin_potion :: InventoryItem where
  "coin_potion =
     \<lparr> item_id = ''coin_potion'', item_name = ''Coin Potion'', quantity = 1, isEquipped = True,
       effects = [\<lparr> ie_type = ''coin_boost'', ie_value = None, ie_duration = None \<rparr>] \<rparr>"

definition quest5 :: Quest where
  "quest5 =
     \<lparr> quest_id = ''q5'', title = ''Win five battles'', quest_status = Some IN_PROGRESS,
       requirements = [\<lparr> req_id = ''r1'', req_type = ''battles'', target = 5,
                         current = Some (Num 4) \<rparr>],
       xp_reward = 10, coin_reward = 5, progress = Some (Num 80), is_active = True \<rparr>"

definition user0 :: User where
  "user0 =
     \<lparr> user_id = ''u1'', level = 1, xp = 0, coins = 10, streak = 0, streakMultiplier = 1,
       rewardMultipliers = \<lparr> mult_xp = 1, mult_coins = 1 \<rparr>,
       activeEffects = [], inventory = [xp_potion, coin_potion], quests = [quest5],
       achievements = [],
       statistics = \<lparr> questsCompleted = 0, coinsEarned = 0, xpGained = 0 \<rparr>,
       battleStats_error = None \<rparr>"

definition idle_battle :: BattleState where
  "idle_battle =
     \<lparr> status = ''idle'', inProgress = False, questions = [], currentQuestion = 0,
       score = \<lparr> player = Num 0, opponent = Num 0 \<rparr>, timeLeft = 0, timePerQuestion = 30,
       playerAnswers = [], rewards = None, currentQuestionIndex = None \<rparr>"

definition state0 :: GameState where
  "state0 = \<lparr> user = user0, battle = idle_battle, loading = False, error = None \<rparr>"

text \<open>
  A stand-in for \<^verbatim>\<open>calculateQuestProgress\<close> in closed statements.  (The function of
  that name in \<^verbatim>\<open>types/quests\<close> returns 0 when it is handed a user where it expects
  the list of requirements.)
\<close>

definition cqp0 :: "Quest \<Rightarrow> User \<Rightarrow> jsnum" where
  "cqp0 q u = Num 0"

definition boost_effect :: Effect where
  "boost_effect =
     \<lparr> effect_id = ''e0'', effect_type = ''xp_boost'', effect_value = 3 / 2,
       effect_startTime = ''2024-01-01T00:00:00.000Z'', effect_duration = 300,
       effect_sourceItem = (''xp_potion'', ''XP Potion'') \<rparr>"

definition state_boosted :: GameState where
  "state_boosted =
     state0 \<lparr> user := user0 \<lparr> rewardMultipliers := \<lparr> mult_xp = 3 / 2, mult_coins = 1 \<rparr>,
                             activeEffects := [boost_effect] \<rparr> \<rparr>"

definition uuid0 :: "nat \<Rightarrow> string" where
  "uuid0 k = ''e'' @ show_nat k"

definition now0 :: string where
  "now0 = ''2024-01-01T00:00:00.000Z''"

text \<open>The state after the dispatches of \<^verbatim>\<open>useItemEffect\<close> for each of the two potions.\<close>

definition state_xp_activated :: GameState where
  "state_xp_activated =
     dispatchAll cqp0 state0 (fst (useItemEffect state0 uuid0 now0 ''xp_potion''))"

definition state_coin_activated :: GameState where
  "state_coin_activated =
     dispatchAll cqp0 state0 (fst (useItemEffect state0 uuid0 now0 ''coin_potion''))"

text \<open>A battle of the game context right after \<^verbatim>\<open>INITIALIZE_BATTLE\<close>.\<close>

definition state_in_battle :: GameState where
  "state_in_battle = gameReducer cqp0 state0 (INITIALIZE_BATTLE [q_a, q_b] 30)"

text \<open>
  The same battle with the status \<^verbatim>\<open>'active'\<close> and the index that the hook reads set
  to the first question: a state in which the guard of \<^verbatim>\<open>handleAnswer\<close> passes.
\<close>

definition state_active :: GameState where
  "state_active =
     state_in_battle \<lparr> battle := (battle state_in_battle)
       \<lparr> status := ''active'', currentQuestionIndex := Some 0 \<rparr> \<rparr>"

text \<open>Two saved battles: one stamped at time 0, one at 1000 ms.\<close>

definition saved_old :: SavedBattle where
  "saved_old =
     \<lparr> sv_questions = [q_a, q_b], sv_currentQuestion = 1, sv_playerAnswers = [True],
       sv_score = \<lparr> player = Num 200, opponent = Num 0 \<rparr>, sv_timeLeft = 12, sv_status = ''battle'',
       sv_lastError = None, sv_timestamp = Some 0 \<rparr>"

definition saved_new :: SavedBattle where
  "saved_new = saved_old \<lparr> sv_timestamp := Some 1000 \<rparr>"

definition row_old :: SaveRow where
  "row_old = \<lparr> row_id = 1, row_user_id = ''u1'', created_at = 0, battle_state = Some saved_old \<rparr>"

definition row_new :: SaveRow where
  "row_new = \<lparr> row_id = 2, row_user_id = ''u2'', created_at = 1000, battle_state = Some saved_new \<rparr>"

definition db0 :: Database where
  "db0 = \<lparr> battle_saves = [row_old, row_new], db_fault = None \<rparr>"

text \<open>
  The state after \<^verbatim>\<open>handleQuestProgress\<close> adds 3 to the one requirement of
  \<open>quest5\<close> (4 of 5 done), for any \<^verbatim>\<open>calculateQuestProgress\<close>.
\<close>

definition state_after_quest5 :: "(Quest \<Rightarrow> User \<Rightarrow> jsnum) \<Rightarrow> GameState" where
  "state_after_quest5 cqp =
     dispatchAll cqp state0 (handleQuestProgress state0 quest5 (hd (requirements quest5)) 3)"

section \<open>Theorems\<close>

subsection \<open>Double arithmetic\<close>

lemma ilen_pos_bounds:
  "0 < n \<Longrightarrow> 1 \<le> ilen n \<and> 2 ^ nat (ilen n - 1) \<le> n \<and> n < 2 ^ nat (ilen n)"
proof (induction n rule: ilen.induct)
  case (1 n)
  show ?case
  proof (cases "n div 2 = 0")
    case True
    with \<open>0 < n\<close> have n1: "n = 1" by presburger
    have "ilen 1 = 1" by (simp add: ilen.simps [of 1] ilen.simps [of 0])
    with n1 show ?thesis by simp
  next
    case False
    with \<open>0 < n\<close> have p: "0 < n div 2" by presburger
    from 1(1) p \<open>0 < n\<close> have ih: "1 \<le> ilen (n div 2)"
      "2 ^ nat (ilen (n div 2) - 1) \<le> n div 2" "n div 2 < 2 ^ nat (ilen (n div 2))"
      by auto
    define k where "k = ilen (n div 2)"
    have e: "ilen n = k + 1" using \<open>0 < n\<close> by (subst ilen.simps) (simp add: k_def)
    have s: "nat k = Suc (nat (k - 1))" using ih(1) by (simp add: k_def)
    have a: "(2::int) ^ nat k \<le> n"
    proof -
      have "(2::int) ^ nat k = 2 * 2 ^ nat (k - 1)" by (subst s) simp
      also have "\<dots> \<le> 2 * (n div 2)" using ih(2) by (simp add: k_def)
      also have "\<dots> \<le> n" by presburger
      finally show ?thesis .
    qed
    have b: "n < 2 ^ nat (k + 1)"
    proof -
      have "n \<le> 2 * (n div 2) + 1" by presburger
      also have "\<dots> < 2 * 2 ^ nat k" using ih(3) by (simp add: k_def)
      also have "\<dots> = 2 ^ nat (k + 1)" using ih(1) by (simp add: k_def nat_add_distrib)
      finally show ?thesis .
    qed
    from a b ih(1) show ?thesis by (simp add: e k_def)
  qed
qed

lemma powi_nat: "0 \<le> k \<Longrightarrow> (2::rat) powi k = 2 ^ nat k"
  by (simp add: power_int_def)

lemma ilog2_bounds:
  assumes "0 < x"
  shows "2 powi (ilog2 x) \<le> x \<and> x < 2 powi (ilog2 x + 1)"
proof (cases "1 \<le> x")
  case True
  then have f: "0 < \<lfloor>x\<rfloor>" by linarith
  from ilen_pos_bounds [OF f] have b: "1 \<le> ilen \<lfloor>x\<rfloor>"
    "2 ^ nat (ilen \<lfloor>x\<rfloor> - 1) \<le> \<lfloor>x\<rfloor>" "\<lfloor>x\<rfloor> < 2 ^ nat (ilen \<lfloor>x\<rfloor>)" by auto
  have e: "ilog2 x = ilen \<lfloor>x\<rfloor> - 1" using True by (simp add: ilog2_def)
  have lo: "(2::rat) ^ nat (ilen \<lfloor>x\<rfloor> - 1) \<le> x"
  proof -
    have "(2::rat) ^ nat (ilen \<lfloor>x\<rfloor> - 1) = of_int (2 ^ nat (ilen \<lfloor>x\<rfloor> - 1))" by simp
    also have "\<dots> \<le> of_int \<lfloor>x\<rfloor>" using b(2) by (simp only: of_int_le_iff)
    also have "\<dots> \<le> x" by simp
    finally show ?thesis .
  qed
  have hi: "x < (2::rat) ^ nat (ilen \<lfloor>x\<rfloor>)"
  proof -
    have fk: "\<lfloor>x\<rfloor> + 1 \<le> 2 ^ nat (ilen \<lfloor>x\<rfloor>)" using b(3) by simp
    have "x < of_int (\<lfloor>x\<rfloor> + 1)" by linarith
    also have "\<dots> \<le> of_int (2 ^ nat (ilen \<lfloor>x\<rfloor>))" using fk by (simp only: of_int_le_iff)
    also have "\<dots> = 2 ^ nat (ilen \<lfloor>x\<rfloor>)" by simp
    finally show ?thesis .
  qed
  from lo hi b(1) show ?thesis by (simp add: e powi_nat)
next
  case False
  define y where "y = 1 / x"
  from False assms have y1: "1 < y" by (simp add: y_def)
  define c where "c = \<lceil>y\<rceil>"
  have c2: "2 \<le> c" using y1 by (simp add: c_def)
  then have cp: "0 < c - 1" by simp
  from ilen_pos_bounds [OF cp] have b: "1 \<le> ilen (c - 1)"
    "2 ^ nat (ilen (c - 1) - 1) \<le> c - 1" "c - 1 < 2 ^ nat (ilen (c - 1))" by auto
  define k where "k = ilen (c - 1)"
  have e: "ilog2 x = - k" using False by (simp add: ilog2_def k_def c_def y_def)
  have yk: "y \<le> 2 ^ nat k"
  proof -
    have ck: "c \<le> 2 ^ nat k" using b(3) by (simp add: k_def)
    have "y \<le> of_int c" by (simp add: c_def)
    also have "\<dots> \<le> of_int (2 ^ nat k)" using ck by (simp only: of_int_le_iff)
    also have "\<dots> = 2 ^ nat k" by simp
    finally show ?thesis .
  qed
  have ky: "(2::rat) ^ nat (k - 1) < y"
  proof -
    have ck: "(2::int) ^ nat (k - 1) \<le> c - 1" using b(2) by (simp add: k_def)
    have "(2::rat) ^ nat (k - 1) = of_int (2 ^ nat (k - 1))" by simp
    also have "\<dots> \<le> of_int (c - 1)" using ck by (simp only: of_int_le_iff)
    also have "\<dots> < y" unfolding c_def by linarith
    finally show ?thesis .
  qed
  have k1: "1 \<le> k" using b(1) by (simp add: k_def)
  have x_eq: "x = 1 / y" using assms by (simp add: y_def)
  have lo: "2 powi (- k) \<le> x"
  proof -
    have "2 powi (- k) = 1 / (2::rat) ^ nat k" using k1 by (simp add: power_int_def field_simps)
    also have "\<dots> \<le> 1 / y" using yk y1 by (intro divide_left_mono) auto
    finally show ?thesis by (simp add: x_eq)
  qed
  have hi: "x < 2 powi (- k + 1)"
  proof -
    have "x = 1 / y" by (rule x_eq)
    also have "\<dots> < 1 / (2::rat) ^ nat (k - 1)"
      using ky y1 by (intro divide_strict_left_mono) (auto intro: mult_pos_pos)
    also have "\<dots> = 2 powi (- k + 1)"
    proof (cases "k = 1")
      case True then show ?thesis by simp
    next
      case False
      with k1 have "- k + 1 < 0" by simp
      then show ?thesis using k1 by (simp add: power_int_def field_simps nat_diff_distrib)
    qed
    finally show ?thesis .
  qed
  from lo hi show ?thesis by (simp add: e)
qed

lemma ilog2_less:
  assumes "0 < x" "x < 2 powi k"
  shows "ilog2 x < k"
proof (rule ccontr)
  assume "\<not> ilog2 x < k"
  then have "k \<le> ilog2 x" by simp
  then have "(2::rat) powi k \<le> 2 powi (ilog2 x)" by (intro power_int_increasing) auto
  also have "\<dots> \<le> x" using ilog2_bounds [OF assms(1)] by simp
  finally show False using assms(2) by simp
qed

lemma ilog2_nonneg:
  assumes "1 \<le> x"
  shows "0 \<le> ilog2 x"
proof (rule ccontr)
  assume "\<not> 0 \<le> ilog2 x"
  then have "ilog2 x + 1 \<le> 0" by simp
  then have "(2::rat) powi (ilog2 x + 1) \<le> 2 powi 0" by (intro power_int_increasing) auto
  moreover have "x < 2 powi (ilog2 x + 1)" using ilog2_bounds [of x] assms by simp
  ultimately show False using assms by simp
qed

lemma rne_ge_floor: "\<lfloor>r\<rfloor> \<le> rne r"
  by (simp add: rne_def Let_def)

lemma rne_err: "\<bar>of_int (rne r) - r\<bar> \<le> 1 / 2"
proof -
  have "of_int \<lfloor>r\<rfloor> \<le> r" "r < of_int \<lfloor>r\<rfloor> + 1" by linarith+
  then show ?thesis by (auto simp: rne_def Let_def)
qed

lemma rnd_pos_nonneg: "0 < x \<Longrightarrow> 0 \<le> rnd_pos x"
proof -
  assume x: "0 < x"
  define q where "q = max (ilog2 x - 52) (- 1074)"
  have p: "0 < (2::rat) powi q" by simp
  then have "0 \<le> x / (2 powi q)" using x by simp
  then have "0 \<le> \<lfloor>x / (2 powi q)\<rfloor>" by simp
  with rne_ge_floor [of "x / (2 powi q)"] have "0 \<le> rne (x / (2 powi q))" by linarith
  then show ?thesis using p by (simp add: rnd_pos_def q_def Let_def)
qed

lemma rnd_nonneg: "0 \<le> x \<Longrightarrow> 0 \<le> rnd x"
  by (simp add: rnd_def rnd_pos_nonneg)

lemma rnd_nonpos: "x \<le> 0 \<Longrightarrow> rnd x \<le> 0"
  using rnd_pos_nonneg [of "- x"] by (auto simp: rnd_def)

lemma dbl_cases: "dbl x = Num (rnd x) \<or> (dbl x = PosInfinity \<and> 0 < rnd x) \<or> (dbl x = NegInfinity \<and> rnd x < 0)"
  by (auto simp: dbl_def Let_def)

lemma dbl_nonpos: "x \<le> 0 \<Longrightarrow> dbl x = NegInfinity \<or> (\<exists>r. r \<le> 0 \<and> dbl x = Num r)"
  using dbl_cases [of x] rnd_nonpos [of x] by auto

lemma rnd_pos_ge_1:
  assumes "1 \<le> x"
  shows "1 \<le> rnd_pos x"
proof -
  have x0: "0 < x" using assms by simp
  define e where "e = ilog2 x"
  have e0: "0 \<le> e" using ilog2_nonneg [OF assms] by (simp add: e_def)
  have lo: "2 powi e \<le> x" using ilog2_bounds [OF x0] by (simp add: e_def)
  have q: "max (e - 52) (- 1074) = e - 52" using e0 by simp
  have p: "0 < (2::rat) powi (e - 52)" by simp
  have "(2::rat) powi 52 = 2 powi e / 2 powi (e - 52)"
    using power_int_diff [of "2::rat" e "e - 52"] by simp
  also have "\<dots> \<le> x / 2 powi (e - 52)" using lo p by (simp add: divide_right_mono)
  finally have "(of_int (2 ^ 52) :: rat) \<le> x / 2 powi (e - 52)" by simp
  then have "2 ^ 52 \<le> \<lfloor>x / 2 powi (e - 52)\<rfloor>" by (simp only: le_floor_iff)
  with rne_ge_floor [of "x / 2 powi (e - 52)"] have "2 ^ 52 \<le> rne (x / 2 powi (e - 52))"
    by linarith
  then have "(of_int (2 ^ 52) :: rat) \<le> of_int (rne (x / 2 powi (e - 52)))"
    by (simp only: of_int_le_iff)
  then have m: "(of_int (2 ^ 52) :: rat) * 2 powi (e - 52) \<le> of_int (rne (x / 2 powi (e - 52))) * 2 powi (e - 52)"
    using p by (intro mult_right_mono) (assumption, simp)
  have "(1::rat) \<le> 2 powi e" using e0 by (simp add: power_int_nonneg_exp)
  also have "\<dots> = 2 powi 52 * 2 powi (e - 52)"
    using power_int_add [of "2::rat" 52 "e - 52"] by simp
  also have "\<dots> = (of_int (2 ^ 52) :: rat) * 2 powi (e - 52)" by simp
  also note m
  finally have "1 \<le> (of_int (rne (x / 2 powi (e - 52))) :: rat) * 2 powi (e - 52)" .
  then show ?thesis by (simp add: rnd_pos_def Let_def e_def [symmetric] q)
qed

lemma dbl_ge_1: "1 \<le> x \<Longrightarrow> dbl x = PosInfinity \<or> (\<exists>r. 1 \<le> r \<and> dbl x = Num r)"
  using dbl_cases [of x] rnd_pos_ge_1 [of x] by (auto simp: rnd_def)

lemma rnd_pos_err:
  assumes "0 < x" "x < 2 powi k" "- 1021 \<le> k"
  shows "\<bar>rnd_pos x - x\<bar> \<le> 2 powi (k - 54)"
proof -
  define q where "q = max (ilog2 x - 52) (- 1074)"
  have qk: "q \<le> k - 53" using ilog2_less [OF assms(1,2)] assms(3) by (simp add: q_def)
  have p: "0 < (2::rat) powi q" by simp
  have "rnd_pos x - x = (of_int (rne (x / 2 powi q)) - x / 2 powi q) * 2 powi q"
    using p by (simp add: rnd_pos_def q_def Let_def field_simps)
  then have "\<bar>rnd_pos x - x\<bar> = \<bar>of_int (rne (x / 2 powi q)) - x / 2 powi q\<bar> * 2 powi q"
    using p by (simp add: abs_mult)
  also have "\<dots> \<le> (1 / 2) * 2 powi q"
    using rne_err [of "x / 2 powi q"] p by (intro mult_right_mono) auto
  also have "\<dots> = 2 powi (q - 1)"
    using power_int_diff [of "2::rat" q 1] by simp
  also have "\<dots> \<le> 2 powi (k - 54)" using qk by (intro power_int_increasing) auto
  finally show ?thesis .
qed

lemma rnd_err:
  assumes "\<bar>x\<bar> < 2 powi k" "- 1021 \<le> k"
  shows "\<bar>rnd x - x\<bar> \<le> 2 powi (k - 54)"
proof (cases "x = 0")
  case True
  then show ?thesis by (simp add: rnd_def)
next
  case False
  show ?thesis
  proof (cases "0 < x")
    case True
    with assms rnd_pos_err [of x k] show ?thesis by (simp add: rnd_def)
  next
    case neg: False
    with False have n: "0 < - x" by simp
    with assms rnd_pos_err [of "- x" k] have "\<bar>rnd_pos (- x) - (- x)\<bar> \<le> 2 powi (k - 54)" by simp
    then show ?thesis using False neg by (simp add: rnd_def abs_minus_commute)
  qed
qed

lemma dbl_near:
  assumes "\<bar>x\<bar> < 256"
  shows "\<exists>r. dbl x = Num r \<and> \<bar>r - x\<bar> \<le> 1 / 1000000000000 \<and> (0 \<le> x \<longrightarrow> 0 \<le> r)"
proof -
  have "\<bar>x\<bar> < 2 powi 8" using assms by simp
  from rnd_err [OF this] have e: "\<bar>rnd x - x\<bar> \<le> 2 powi (- 46)" by simp
  have s: "(2::rat) powi (- 46) \<le> 1 / 1000000000000" by (simp add: power_int_minus_divide)
  from e s have e': "\<bar>rnd x - x\<bar> \<le> 1 / 1000000000000" by linarith
  have "(2::rat) powi 9 = 512" by simp
  with e' assms have b: "\<bar>rnd x\<bar> < 2 powi 9" by linarith
  have "dbl x = Num (rnd x)"
  proof (cases "rnd x = 0")
    case True then show ?thesis by (simp add: dbl_def)
  next
    case False
    then have "0 < \<bar>rnd x\<bar>" by simp
    from ilog2_less [OF this b] show ?thesis using False by (simp add: dbl_def Let_def)
  qed
  with e' rnd_nonneg [of x] show ?thesis by auto
qed

text \<open>Rounding to the nearest double is monotone.\<close>

lemma rne_le_ceiling: "rne r \<le> \<lceil>r\<rceil>"
proof -
  have "of_int \<lfloor>r\<rfloor> \<le> r" by simp
  show ?thesis
  proof (cases "r = of_int \<lfloor>r\<rfloor>")
    case True
    then have "r - of_int \<lfloor>r\<rfloor> = 0" by simp
    then have "rne r = \<lfloor>r\<rfloor>" by (simp add: rne_def Let_def)
    then show ?thesis using floor_le_ceiling [of r] by simp
  next
    case False
    then have "\<lceil>r\<rceil> = \<lfloor>r\<rfloor> + 1" by (simp add: ceiling_altdef)
    then show ?thesis by (simp add: rne_def Let_def)
  qed
qed

lemma rne_mono: 
  assumes "r \<le> s"
  shows "rne r \<le> rne s"
proof (cases "\<lfloor>r\<rfloor> = \<lfloor>s\<rfloor>")
  case True
  from assms have "r - of_int \<lfloor>r\<rfloor> \<le> s - of_int \<lfloor>r\<rfloor>" by simp
  then show ?thesis using True by (auto simp: rne_def Let_def)
next
  case False
  with assms have "\<lfloor>r\<rfloor> < \<lfloor>s\<rfloor>" using floor_mono [OF assms] by linarith
  then have "\<lfloor>r\<rfloor> + 1 \<le> \<lfloor>s\<rfloor>" by simp
  then have "of_int (\<lfloor>r\<rfloor> + 1) \<le> s" by (simp only: le_floor_iff)
  moreover have "r \<le> of_int (\<lfloor>r\<rfloor> + 1)" by linarith
  ultimately have "\<lceil>r\<rceil> \<le> \<lfloor>r\<rfloor> + 1" "\<lfloor>r\<rfloor> + 1 \<le> \<lfloor>s\<rfloor>"
    by (simp_all only: ceiling_le_iff le_floor_iff)
  with rne_le_ceiling [of r] rne_ge_floor [of s] show ?thesis by linarith
qed

lemma ilog2_mono:
  assumes "0 < x" "x \<le> y"
  shows "ilog2 x \<le> ilog2 y"
proof (rule ccontr)
  assume "\<not> ilog2 x \<le> ilog2 y"
  then have "ilog2 y + 1 \<le> ilog2 x" by simp
  then have "(2::rat) powi (ilog2 y + 1) \<le> 2 powi (ilog2 x)" by (intro power_int_increasing) auto
  moreover have "y < 2 powi (ilog2 y + 1)" using ilog2_bounds [of y] assms by simp
  moreover have "2 powi (ilog2 x) \<le> x" using ilog2_bounds [of x] assms by simp
  ultimately show False using assms by linarith
qed

lemma powi_of_int: "0 \<le> k \<Longrightarrow> (2::rat) powi k = of_int (2 ^ nat k)"
  by (simp add: power_int_def)

lemma rnd_pos_ge_pow:
  assumes "0 < y" "- 1074 \<le> ilog2 y"
  shows "2 powi (ilog2 y) \<le> rnd_pos y"
proof -
  define e where "e = ilog2 y"
  define q where "q = max (e - 52) (- 1074)"
  have qe: "q \<le> e" using assms(2) by (simp add: q_def e_def)
  have p: "0 < (2::rat) powi q" by simp
  have lo: "2 powi e \<le> y" using ilog2_bounds [OF assms(1)] by (simp add: e_def)
  have "(of_int (2 ^ nat (e - q)) :: rat) = 2 powi (e - q)" using qe by (simp add: powi_of_int)
  also have "\<dots> = 2 powi e / 2 powi q" by (simp add: power_int_diff)
  also have "\<dots> \<le> y / 2 powi q" using lo p by (simp add: divide_right_mono)
  finally have "2 ^ nat (e - q) \<le> \<lfloor>y / 2 powi q\<rfloor>" by (simp only: le_floor_iff)
  with rne_ge_floor [of "y / 2 powi q"] have "2 ^ nat (e - q) \<le> rne (y / 2 powi q)" by linarith
  then have "(of_int (2 ^ nat (e - q)) :: rat) \<le> of_int (rne (y / 2 powi q))"
    by (simp only: of_int_le_iff)
  then have m: "(of_int (2 ^ nat (e - q)) :: rat) * 2 powi q \<le> of_int (rne (y / 2 powi q)) * 2 powi q"
    using p by (intro mult_right_mono) (assumption, simp)
  have "(2::rat) powi e = 2 powi (e - q) * 2 powi q"
    using power_int_add [of "2::rat" "e - q" q] by simp
  also have "\<dots> = (of_int (2 ^ nat (e - q)) :: rat) * 2 powi q" using qe by (simp add: powi_of_int)
  also note m
  finally show ?thesis by (simp add: rnd_pos_def Let_def e_def [symmetric] q_def [symmetric])
qed

lemma rnd_pos_le_pow:
  assumes "0 < x" "x \<le> 2 powi k" "max (ilog2 x - 52) (- 1074) \<le> k"
  shows "rnd_pos x \<le> 2 powi k"
proof -
  define q where "q = max (ilog2 x - 52) (- 1074)"
  have qk: "q \<le> k" using assms(3) by (simp add: q_def)
  have p: "0 < (2::rat) powi q" by simp
  have "x / 2 powi q \<le> 2 powi k / 2 powi q" using assms(2) p by (simp add: divide_right_mono)
  also have "\<dots> = 2 powi (k - q)" by (simp add: power_int_diff)
  also have "\<dots> = (of_int (2 ^ nat (k - q)) :: rat)" using qk by (simp add: powi_of_int)
  finally have "\<lceil>x / 2 powi q\<rceil> \<le> 2 ^ nat (k - q)" by (simp only: ceiling_le_iff)
  with rne_le_ceiling [of "x / 2 powi q"] have "rne (x / 2 powi q) \<le> 2 ^ nat (k - q)" by linarith
  then have "(of_int (rne (x / 2 powi q)) :: rat) \<le> of_int (2 ^ nat (k - q))"
    by (simp only: of_int_le_iff)
  then have "(of_int (rne (x / 2 powi q)) :: rat) * 2 powi q \<le> of_int (2 ^ nat (k - q)) * 2 powi q"
    using p by (intro mult_right_mono) (assumption, simp)
  also have "\<dots> = 2 powi (k - q) * 2 powi q" using qk by (simp add: powi_of_int)
  also have "\<dots> = 2 powi k" using power_int_add [of "2::rat" "k - q" q] by simp
  finally show ?thesis by (simp add: rnd_pos_def Let_def q_def [symmetric])
qed

lemma rnd_pos_mono:
  assumes "0 < x" "x \<le> y"
  shows "rnd_pos x \<le> rnd_pos y"
proof -
  have y0: "0 < y" using assms by simp
  define ex where "ex = ilog2 x"
  define ey where "ey = ilog2 y"
  define qx where "qx = max (ex - 52) (- 1074)"
  define qy where "qy = max (ey - 52) (- 1074)"
  have e: "ex \<le> ey" using ilog2_mono [OF assms] by (simp add: ex_def ey_def)
  show ?thesis
  proof (cases "qx = qy")
    case True
    have p: "0 < (2::rat) powi qy" by simp
    have "x / 2 powi qy \<le> y / 2 powi qy" using assms(2) p by (simp add: divide_right_mono)
    from rne_mono [OF this] have "(of_int (rne (x / 2 powi qy)) :: rat) \<le> of_int (rne (y / 2 powi qy))"
      by (simp only: of_int_le_iff)
    then have "(of_int (rne (x / 2 powi qy)) :: rat) * 2 powi qy \<le> of_int (rne (y / 2 powi qy)) * 2 powi qy"
      using p by (intro mult_right_mono) (assumption, simp)
    then show ?thesis
      using True by (simp add: rnd_pos_def Let_def ex_def [symmetric] ey_def [symmetric]
          qx_def [symmetric] qy_def [symmetric])
  next
    case False
    with e have lt: "qx < qy" unfolding qx_def qy_def by linarith
    then have qy: "qy = ey - 52" and ey: "- 1074 \<le> ey" and exy: "ex < ey" and qxe: "qx \<le> ey"
      unfolding qx_def qy_def by linarith+
    have "x < 2 powi (ex + 1)" using ilog2_bounds [OF assms(1)] by (simp add: ex_def)
    also have "\<dots> \<le> 2 powi ey" using exy by (intro power_int_increasing) auto
    finally have "x \<le> 2 powi ey" by simp
    from rnd_pos_le_pow [OF assms(1) this] qxe have "rnd_pos x \<le> 2 powi ey"
      by (simp add: qx_def ex_def)
    also have "\<dots> \<le> rnd_pos y" using rnd_pos_ge_pow [OF y0] ey by (simp add: ey_def)
    finally show ?thesis .
  qed
qed

lemma rnd_mono:
  assumes "x \<le> y"
  shows "rnd x \<le> rnd y"
proof -
  consider "0 < x" | "x \<le> 0" "0 \<le> y" | "y < 0" by linarith
  then show ?thesis
  proof cases
    case 1
    with assms rnd_pos_mono [of x y] show ?thesis by (simp add: rnd_def)
  next
    case 2
    with rnd_nonpos [of x] rnd_nonneg [of y] show ?thesis by linarith
  next
    case 3
    with assms have "0 < - y" "- y \<le> - x" by simp_all
    from rnd_pos_mono [OF this] 3 assms show ?thesis by (simp add: rnd_def)
  qed
qed

lemma dbl_PosInfinity: "dbl x = PosInfinity \<longleftrightarrow> 0 < rnd x \<and> 1024 \<le> ilog2 (rnd x)"
  by (auto simp: dbl_def Let_def)

lemma dbl_NegInfinity: "dbl x = NegInfinity \<longleftrightarrow> rnd x < 0 \<and> 1024 \<le> ilog2 (- rnd x)"
  by (auto simp: dbl_def Let_def)

lemma dbl_Num: "dbl x = Num r \<Longrightarrow> r = rnd x"
  by (auto simp: dbl_def Let_def split: if_splits)

lemma dbl_mono:
  assumes "x \<le> y"
  shows "js_le (dbl x) (dbl y)"
proof -
  note m = rnd_mono [OF assms]
  show ?thesis
  proof (cases "dbl x")
    case (Num a)
    note xa = dbl_Num [OF Num]
    show ?thesis
    proof (cases "dbl y")
      case (Num b)
      with dbl_Num [OF Num] xa m \<open>dbl x = Num a\<close> show ?thesis by simp
    next
      case PosInfinity
      with Num show ?thesis by simp
    next
      case NegInfinity
      then have ny: "rnd y < 0" "1024 \<le> ilog2 (- rnd y)" by (simp_all add: dbl_NegInfinity)
      with m have "0 < - rnd y" "- rnd y \<le> - rnd x" by simp_all
      from ilog2_mono [OF this] ny m have "dbl x = NegInfinity" by (simp add: dbl_NegInfinity)
      with Num show ?thesis by simp
    next
      case NaN
      then show ?thesis by (simp add: dbl_def Let_def split: if_splits)
    qed
  next
    case PosInfinity
    then have px: "0 < rnd x" "1024 \<le> ilog2 (rnd x)" by (simp_all add: dbl_PosInfinity)
    from ilog2_mono [OF px(1) m] px m have "dbl y = PosInfinity" by (simp add: dbl_PosInfinity)
    with PosInfinity show ?thesis by simp
  next
    case NegInfinity
    have "dbl y \<noteq> NaN" by (simp add: dbl_def Let_def)
    with NegInfinity show ?thesis by (cases "dbl y") simp_all
  next
    case NaN
    then show ?thesis by (simp add: dbl_def Let_def split: if_splits)
  qed
qed

lemma dbl_between:
  assumes "dbl lo = Num lo" "dbl hi = Num hi" "lo \<le> x" "x \<le> hi" "dbl x = Num r"
  shows "lo \<le> r \<and> r \<le> hi"
  using dbl_mono [OF assms(3)] dbl_mono [OF assms(4)] assms(1,2,5) by simp

subsection \<open>Level from XP\<close>

lemma calculateLevel_loop_ge: "lvl \<le> calculateLevel_loop cfg x lvl totalXP"
proof (induction cfg x lvl totalXP rule: calculateLevel_loop.induct)
  case (1 cfg x lvl totalXP)
  show ?case
  proof (cases "lvl < MAX_LEVEL cfg \<and> of_int totalXP \<le> x")
    case False
    then show ?thesis by (subst calculateLevel_loop.simps) auto
  next
    case True
    show ?thesis
    proof (cases "calculateXPForLevel cfg lvl")
      case PosInf
      with True show ?thesis by (subst calculateLevel_loop.simps) auto
    next
      case (Fin v)
      show ?thesis
      proof (cases "of_int (totalXP + v) > x")
        case True
        with \<open>lvl < MAX_LEVEL cfg \<and> of_int totalXP \<le> x\<close> Fin show ?thesis
          by (subst calculateLevel_loop.simps) auto
      next
        case False
        from 1 [OF \<open>lvl < MAX_LEVEL cfg \<and> of_int totalXP \<le> x\<close> Fin False]
        have "lvl + 1 \<le> calculateLevel_loop cfg x (lvl + 1) (totalXP + v)" .
        with \<open>lvl < MAX_LEVEL cfg \<and> of_int totalXP \<le> x\<close> Fin False show ?thesis
          by (subst calculateLevel_loop.simps) auto
      qed
    qed
  qed
qed

lemma calculateLevel_loop_mono:
  "x1 \<le> x2 \<Longrightarrow>
   calculateLevel_loop cfg x1 lvl totalXP \<le> calculateLevel_loop cfg x2 lvl totalXP"
proof (induction cfg x1 lvl totalXP rule: calculateLevel_loop.induct)
  case (1 cfg x1 lvl totalXP)
  note ge = calculateLevel_loop_ge [of lvl cfg x2 totalXP]
  show ?case
  proof (cases "lvl < MAX_LEVEL cfg \<and> of_int totalXP \<le> x1")
    case False
    then have "calculateLevel_loop cfg x1 lvl totalXP = lvl"
      by (subst calculateLevel_loop.simps) auto
    with ge show ?thesis by simp
  next
    case True
    show ?thesis
    proof (cases "calculateXPForLevel cfg lvl")
      case PosInf
      with True have "calculateLevel_loop cfg x1 lvl totalXP = lvl"
        by (subst calculateLevel_loop.simps) auto
      with ge show ?thesis by simp
    next
      case (Fin v)
      show ?thesis
      proof (cases "of_int (totalXP + v) > x1")
        case over: True
        with True Fin have "calculateLevel_loop cfg x1 lvl totalXP = lvl"
          by (subst calculateLevel_loop.simps) auto
        with ge show ?thesis by simp
      next
        case under: False
        have l: "calculateLevel_loop cfg x1 lvl totalXP =
                 calculateLevel_loop cfg x1 (lvl + 1) (totalXP + v)"
          using True Fin under by (subst calculateLevel_loop.simps) auto
        have r: "calculateLevel_loop cfg x2 lvl totalXP =
                 calculateLevel_loop cfg x2 (lvl + 1) (totalXP + v)"
          using True Fin under \<open>x1 \<le> x2\<close> by (subst calculateLevel_loop.simps) auto
        from 1(1) [OF True Fin under \<open>x1 \<le> x2\<close>] l r show ?thesis by simp
      qed
    qed
  qed
qed

text \<open>
  C7.  The level computed from XP is monotonic in the XP and capped: for \<open>x1 < x2\<close>
  the level of \<open>x1\<close> is at most the level of \<open>x2\<close>, no XP gives a level above
  \<open>MAX_LEVEL\<close>, and a level beyond \<open>MAX_LEVEL\<close> costs infinitely much XP.
\<close>

theorem calculateLevel_monotone_capped:
  "(x1 < x2 \<longrightarrow> calculateLevel cfg x1 \<le> calculateLevel cfg x2) \<and>
   calculateLevel cfg x \<le> MAX_LEVEL cfg \<and>
   (lvl > MAX_LEVEL cfg \<longrightarrow> calculateXPForLevel cfg lvl = PosInf)"
proof (intro conjI impI)
  assume "x1 < x2"
  then have "calculateLevel_loop cfg x1 1 0 \<le> calculateLevel_loop cfg x2 1 0"
    by (intro calculateLevel_loop_mono) simp
  then show "calculateLevel cfg x1 \<le> calculateLevel cfg x2"
    by (simp add: calculateLevel_def)
next
  show "calculateLevel cfg x \<le> MAX_LEVEL cfg"
    by (simp add: calculateLevel_def)
next
  assume "lvl > MAX_LEVEL cfg"
  then show "calculateXPForLevel cfg lvl = PosInf"
    by (simp add: calculateXPForLevel_def)
qed

text \<open>Witness of C7: base 1000, growth 3/2, 50 levels; 2500 XP is level 3.\<close>

theorem calculateLevel_monotone_capped_witness:
  "(0::rat) < 2500 \<and> calculateLevel levelConfig0 0 \<le> calculateLevel levelConfig0 2500 \<and>
   calculateLevel levelConfig0 0 = 1 \<and> calculateLevel levelConfig0 2500 = 3 \<and>
   calculateLevel levelConfig0 2500 \<le> MAX_LEVEL levelConfig0 \<and>
   51 > MAX_LEVEL levelConfig0 \<and> calculateXPForLevel levelConfig0 51 = PosInf"
proof -
  have a: "calculateLevel levelConfig0 0 = 1" by code_simp
  have b: "calculateLevel levelConfig0 2500 = 3" by code_simp
  have c: "51 > MAX_LEVEL levelConfig0" by (simp add: levelConfig0_def)
  from calculateLevel_monotone_capped
         [where ?x1.0 = 0 and ?x2.0 = 2500 and cfg = levelConfig0 and x = 2500 and lvl = 51] a b c
  show ?thesis by simp
qed

subsection \<open>Question score\<close>

text \<open>The score before \<^verbatim>\<open>Math.round\<close>, from 30 seconds on and before.\<close>

lemma js_max_Num: "js_max (Num a) (Num b) = Num (max a b)"
  by (simp add: js_max_def max_def)

lemma js_sub_Num: "js_sub (Num a) (Num b) = dbl (a - b)"
  by (simp add: js_sub_def js_neg_def)

lemma dbl_1: "dbl 1 = Num 1"
  by code_simp

lemma dbl_100: "dbl 100 = Num 100"
  by code_simp

lemma dbl_0: "dbl 0 = Num 0"
  by (simp add: dbl_def rnd_def)

lemma dbl_2: "dbl 2 = Num 2"
  by code_simp

lemma dbl_200: "dbl 200 = Num 200"
  by code_simp

lemma js_round_100: "js_round (Num 100) = Num 100"
  by code_simp

lemma score_product_late:
  assumes "30 \<le> t"
  shows "js_mul (Num 100) (js_add (Num 1) (js_max (Num 0) (js_sub (Num 1) (js_div (Num t) (Num 30))))) = Num 100"
proof -
  have d: "js_div (Num t) (Num 30) = dbl (t / 30)" by simp
  have "1 \<le> t / 30" using assms by simp
  from dbl_ge_1 [OF this] have "js_max (Num 0) (js_sub (Num 1) (dbl (t / 30))) = Num 0"
  proof
    assume "dbl (t / 30) = PosInfinity"
    then show ?thesis by (simp add: js_sub_def js_neg_def js_max_def)
  next
    assume "\<exists>r. 1 \<le> r \<and> dbl (t / 30) = Num r"
    then obtain r where r: "1 \<le> r" "dbl (t / 30) = Num r" by blast
    then have "1 - r \<le> 0" by simp
    from dbl_nonpos [OF this] show ?thesis
      by (auto simp: r js_sub_Num js_max_def)
  qed
  then show ?thesis by (simp add: d dbl_1 dbl_100)
qed

lemma score_product_early:
  assumes "0 \<le> t" "t < 30"
  shows "\<exists>r. js_mul (Num 100) (js_add (Num 1) (js_max (Num 0) (js_sub (Num 1) (js_div (Num t) (Num 30))))) = Num r
           \<and> \<bar>r - 100 * (1 + max 0 (1 - t / 30))\<bar> \<le> 1 / 2000000000
           \<and> 100 \<le> r \<and> r \<le> 200"
proof -
  have d: "js_div (Num t) (Num 30) = dbl (t / 30)" by simp
  have x1: "0 \<le> t / 30" "t / 30 < 1" using assms by simp_all
  then have "\<bar>t / 30\<bar> < 256" by linarith
  from dbl_near [OF this] x1 obtain r1
    where r1: "dbl (t / 30) = Num r1" "\<bar>r1 - t / 30\<bar> \<le> 1 / 1000000000000" "0 \<le> r1" by blast
  have i1: "0 \<le> r1 \<and> r1 \<le> 1"
    using x1 by (intro dbl_between [OF dbl_0 dbl_1 _ _ r1(1)]) simp_all
  have "\<bar>1 - r1\<bar> < 256" using r1 x1 by linarith
  from dbl_near [OF this] obtain r2
    where r2: "dbl (1 - r1) = Num r2" "\<bar>r2 - (1 - r1)\<bar> \<le> 1 / 1000000000000" by blast
  have i2: "0 \<le> r2 \<and> r2 \<le> 1"
    using i1 by (intro dbl_between [OF dbl_0 dbl_1 _ _ r2(1)]) simp_all
  define b where "b = max 0 r2"
  have b0: "0 \<le> b" by (simp add: b_def)
  have b1: "\<bar>b - (1 - t / 30)\<bar> \<le> 2 / 1000000000000"
  proof (cases "0 \<le> r2")
    case True
    then have "b = r2" by (simp add: b_def)
    then show ?thesis using r1 r2 by linarith
  next
    case False
    then have "b = 0" by (simp add: b_def)
    then show ?thesis using False r1 r2 x1 by linarith
  qed
  note b = b0 b1
  have "\<bar>1 + b\<bar> < 256" using b x1 by linarith
  from dbl_near [OF this] obtain r3
    where r3: "dbl (1 + b) = Num r3" "\<bar>r3 - (1 + b)\<bar> \<le> 1 / 1000000000000" by blast
  have i3: "1 \<le> r3 \<and> r3 \<le> 2"
    using i2 by (intro dbl_between [OF dbl_1 dbl_2 _ _ r3(1)]) (simp_all add: b_def)
  define e where "e = 1 + (1 - t / 30)"
  have e: "\<bar>r3 - e\<bar> \<le> 3 / 1000000000000" "0 \<le> e" "e \<le> 2"
    using r3 b x1 unfolding e_def by linarith+
  have "\<bar>100 * r3\<bar> < 256" using e by linarith
  from dbl_near [OF this] obtain r4
    where r4: "dbl (100 * r3) = Num r4" "\<bar>r4 - 100 * r3\<bar> \<le> 1 / 1000000000000" by blast
  have i4: "100 \<le> r4 \<and> r4 \<le> 200"
    using i3 by (intro dbl_between [OF dbl_100 dbl_200 _ _ r4(1)]) simp_all
  have m: "max 0 (1 - t / 30) = 1 - t / 30" using x1 by simp
  have "\<bar>r4 - 100 * e\<bar> \<le> 1 / 2000000000" using r4 e by linarith
  then have "\<bar>r4 - 100 * (1 + (1 - t / 30))\<bar> \<le> 1 / 2000000000" by (simp only: e_def)
  with i4 show ?thesis
    by (simp only: d r1 js_sub_Num r2 js_max_Num b_def [symmetric] js_add.simps r3 js_mul.simps r4 m)
       simp
qed

lemma round_near:
  fixes r e :: rat
  assumes "\<bar>r - e\<bar> \<le> 1 / 2000000000"
  shows "\<bar>\<lfloor>r + 1 / 2\<rfloor> - round e\<bar> \<le> 1"
    and "1 / 1000000000 \<le> frac (e + 1 / 2) \<Longrightarrow> frac (e + 1 / 2) \<le> 999999999 / 1000000000 \<Longrightarrow> \<lfloor>r + 1 / 2\<rfloor> = round e"
proof -
  have fr: "of_int \<lfloor>r + 1 / 2\<rfloor> \<le> r + 1 / 2" "r + 1 / 2 < of_int \<lfloor>r + 1 / 2\<rfloor> + 1"
    by linarith+
  have fe: "of_int \<lfloor>e + 1 / 2\<rfloor> \<le> e + 1 / 2" "e + 1 / 2 < of_int \<lfloor>e + 1 / 2\<rfloor> + 1"
    by linarith+
  have "(of_int \<lfloor>r + 1 / 2\<rfloor> :: rat) < of_int (\<lfloor>e + 1 / 2\<rfloor> + 2)"
    unfolding of_int_add of_int_numeral using fr fe assms by linarith
  then have 1: "\<lfloor>r + 1 / 2\<rfloor> < \<lfloor>e + 1 / 2\<rfloor> + 2" by (simp only: of_int_less_iff)
  have "(of_int \<lfloor>e + 1 / 2\<rfloor> :: rat) < of_int (\<lfloor>r + 1 / 2\<rfloor> + 2)"
    unfolding of_int_add of_int_numeral using fr fe assms by linarith
  then have 2: "\<lfloor>e + 1 / 2\<rfloor> < \<lfloor>r + 1 / 2\<rfloor> + 2" by (simp only: of_int_less_iff)
  from 1 2 show "\<bar>\<lfloor>r + 1 / 2\<rfloor> - round e\<bar> \<le> 1" unfolding round_def by linarith
next
  assume f: "1 / 1000000000 \<le> frac (e + 1 / 2)" "frac (e + 1 / 2) \<le> 999999999 / 1000000000"
  have "of_int \<lfloor>e + 1 / 2\<rfloor> \<le> r + 1 / 2" "r + 1 / 2 < of_int \<lfloor>e + 1 / 2\<rfloor> + 1"
    using f assms unfolding frac_def by linarith+
  then show "\<lfloor>r + 1 / 2\<rfloor> = round e" unfolding round_def by (rule floor_unique)
qed

text \<open>
  C2 (as the code has it).  For every non-negative time the score is an integer
  between 100 and 200 that differs from \<open>round (100 * (1 + max 0 (1 - timeSpent / 30)))\<close> by at most 1, and is
  equal to it whenever \<open>100 * (1 + max 0 (1 - timeSpent / 30))\<close> is at least
  \<open>1 / 10 ^ 9\<close> away from the nearest number of the form \<open>k + 1/2\<close>; it is 200 at 0
  seconds, 150 at 15 seconds, 100 at 30 seconds, and exactly the base 100 for every
  time of 30 seconds or more.
\<close>

lemma round_range:
  fixes r :: rat
  assumes "100 \<le> r" "r \<le> 200"
  shows "100 \<le> \<lfloor>r + 1 / 2\<rfloor> \<and> \<lfloor>r + 1 / 2\<rfloor> \<le> 200"
proof
  have "(of_int 100 :: rat) \<le> r + 1 / 2" using assms(1) by simp
  then show "100 \<le> \<lfloor>r + 1 / 2\<rfloor>" by (simp only: le_floor_iff)
  have "r + 1 / 2 < (of_int 201 :: rat)" using assms(2) by simp
  then have "\<lfloor>r + 1 / 2\<rfloor> < 201" by (simp only: floor_less_iff)
  then show "\<lfloor>r + 1 / 2\<rfloor> \<le> 200" by simp
qed

theorem calculateQuestionScore_near_formula:
  "0 \<le> t \<Longrightarrow>
     (\<exists>n. calculateQuestionScore t = Num (of_int n) \<and>
          100 \<le> n \<and> n \<le> 200 \<and>
          \<bar>n - questionScore_spec t\<bar> \<le> 1 \<and>
          (1 / 1000000000 \<le> frac (100 * (1 + max 0 (1 - t / 30)) + 1 / 2) \<and>
           frac (100 * (1 + max 0 (1 - t / 30)) + 1 / 2) \<le> 999999999 / 1000000000
             \<longrightarrow> n = questionScore_spec t)) \<and>
     (30 \<le> t \<longrightarrow> calculateQuestionScore t = Num 100) \<and>
     calculateQuestionScore 0 = Num 200 \<and>
     calculateQuestionScore 15 = Num 150 \<and>
     calculateQuestionScore 30 = Num 100"
proof (intro conjI impI)
  assume t0: "0 \<le> t"
  show "\<exists>n. calculateQuestionScore t = Num (of_int n) \<and>
          100 \<le> n \<and> n \<le> 200 \<and>
          \<bar>n - questionScore_spec t\<bar> \<le> 1 \<and>
          (1 / 1000000000 \<le> frac (100 * (1 + max 0 (1 - t / 30)) + 1 / 2) \<and>
           frac (100 * (1 + max 0 (1 - t / 30)) + 1 / 2) \<le> 999999999 / 1000000000
             \<longrightarrow> n = questionScore_spec t)"
  proof (cases "t < 30")
    case True
    from score_product_early [OF t0 True] obtain r where
      r: "js_mul (Num 100) (js_add (Num 1) (js_max (Num 0) (js_sub (Num 1) (js_div (Num t) (Num 30))))) = Num r"
         "\<bar>r - 100 * (1 + max 0 (1 - t / 30))\<bar> \<le> 1 / 2000000000"
         "100 \<le> r" "r \<le> 200" by blast
    have c: "calculateQuestionScore t = Num (of_int \<lfloor>r + 1 / 2\<rfloor>)"
      unfolding calculateQuestionScore_def Let_def r(1) by (simp add: js_round_def)
    show ?thesis
      using round_near [OF r(2)] round_range [OF r(3,4)] unfolding c questionScore_spec_def
      by blast
  next
    case False
    then have t30: "30 \<le> t" by simp
    then have m: "max 0 (1 - t / 30) = 0" by simp
    have c: "calculateQuestionScore t = Num (of_int 100)"
      unfolding calculateQuestionScore_def Let_def score_product_late [OF t30]
      by (simp add: js_round_100)
    have "round (100::rat) = 100" by code_simp
    then have "questionScore_spec t = 100" by (simp add: questionScore_spec_def m)
    then show ?thesis using c by (intro exI [of _ 100]) simp
  qed
next
  assume "30 \<le> t"
  then show "calculateQuestionScore t = Num 100"
    unfolding calculateQuestionScore_def Let_def by (simp only: score_product_late js_round_100)
next
  show "calculateQuestionScore 0 = Num 200" by code_simp
next
  show "calculateQuestionScore 15 = Num 150" by code_simp
next
  show "calculateQuestionScore 30 = Num 100" by code_simp
qed

text \<open>
  Witness of C2, at 10 seconds (where the exact value \<open>166 + 2/3\<close> is far from a half
  and the theorem gives the score 167) and at 45 seconds.
\<close>

theorem calculateQuestionScore_near_formula_witness:
  "(0::rat) \<le> 10 \<and>
   1 / 1000000000 \<le> frac (100 * (1 + max 0 (1 - (10::rat) / 30)) + 1 / 2) \<and>
   frac (100 * (1 + max 0 (1 - (10::rat) / 30)) + 1 / 2) \<le> 999999999 / 1000000000 \<and>
   questionScore_spec 10 = 167 \<and>
   calculateQuestionScore 10 = Num 167 \<and>
   (0::rat) \<le> 45 \<and> (30::rat) \<le> 45 \<and> calculateQuestionScore 45 = Num 100"
proof -
  have f: "1 / 1000000000 \<le> frac (100 * (1 + max 0 (1 - (10::rat) / 30)) + 1 / 2) \<and>
    frac (100 * (1 + max 0 (1 - (10::rat) / 30)) + 1 / 2) \<le> 999999999 / 1000000000"
    by code_simp
  have q: "questionScore_spec 10 = 167" by code_simp
  have z: "(0::rat) \<le> 10" "(0::rat) \<le> 45" "(30::rat) \<le> 45" by simp_all
  from calculateQuestionScore_near_formula [OF z(1)] obtain n where
    n: "calculateQuestionScore 10 = Num (of_int n)"
       "1 / 1000000000 \<le> frac (100 * (1 + max 0 (1 - (10::rat) / 30)) + 1 / 2) \<and>
        frac (100 * (1 + max 0 (1 - (10::rat) / 30)) + 1 / 2) \<le> 999999999 / 1000000000
          \<longrightarrow> n = questionScore_spec 10"
    by blast
  from n(2) f q have "n = 167" by simp
  with n(1) have a: "calculateQuestionScore 10 = Num 167" by simp
  from calculateQuestionScore_near_formula [OF z(2)] z(3)
  have b: "calculateQuestionScore 45 = Num 100" by blast
  show ?thesis
    by (rule conjI [OF z(1) conjI [OF conjunct1 [OF f] conjI [OF conjunct2 [OF f]
          conjI [OF q conjI [OF a conjI [OF z(2) conjI [OF z(3) b]]]]]]])
qed

text \<open>
  The claim as stated fails.  The double nearest to 1.65 is
  \<open>7430939385161318 / 2 ^ 52\<close>.  At that time the formula of the specification gives
  \<open>round 194.5000000000000003 = 195\<close>; the function computes the quotient, the
  difference, the sum and the product in doubles, arrives at 194.49999999999997 and
  returns 194.
\<close>

theorem calculateQuestionScore_counterexample:
  "(0::rat) \<le> 7430939385161318 / 4503599627370496 \<and>
   dbl (33 / 20) = Num (7430939385161318 / 4503599627370496) \<and>
   calculateQuestionScore (7430939385161318 / 4503599627370496) = Num 194 \<and>
   questionScore_spec (7430939385161318 / 4503599627370496) = 195"
  by code_simp

subsection \<open>Timer tick of the battle reducer\<close>

text \<open>
  C3 (as the code has it).  While the battle is in progress with the status
  \<^verbatim>\<open>'battle'\<close>, a \<^verbatim>\<open>SET_TIME_LEFT\<close> tick of 0 (or less) with more questions remaining
  advances \<open>currentQuestion\<close> by one and resets \<open>timeLeft\<close> to the configured time per
  question; the score is not credited, and the answers, the status and everything
  else stay as they are: no entry is appended to \<open>playerAnswers\<close>.
\<close>

theorem set_time_left_advances:
  assumes "inProgress s" and "status s = ''battle''" and "payload \<le> 0"
    and "currentQuestion s < int (length (questions s)) - 1"
  shows "battleReducer cfg s (SET_TIME_LEFT payload) =
           s \<lparr> timeLeft := cfg_timePerQuestion cfg, currentQuestion := currentQuestion s + 1 \<rparr>
         \<and> score (battleReducer cfg s (SET_TIME_LEFT payload)) = score s
         \<and> playerAnswers (battleReducer cfg s (SET_TIME_LEFT payload)) = playerAnswers s
         \<and> status (battleReducer cfg s (SET_TIME_LEFT payload)) = ''battle''"
  using assms by (simp add: max_def)

theorem set_time_left_advances_witness:
  "inProgress battle_first \<and> status battle_first = ''battle'' \<and> (0::rat) \<le> 0 \<and>
   currentQuestion battle_first < int (length (questions battle_first)) - 1 \<and>
   currentQuestion (battleReducer cfg30 battle_first (SET_TIME_LEFT 0)) = 1 \<and>
   timeLeft (battleReducer cfg30 battle_first (SET_TIME_LEFT 0)) = 30 \<and>
   score (battleReducer cfg30 battle_first (SET_TIME_LEFT 0)) = score battle_first"
proof -
  have h: "inProgress battle_first" "status battle_first = ''battle''"
    "currentQuestion battle_first < int (length (questions battle_first)) - 1"
    by (simp_all add: battle_first_def)
  from set_time_left_advances [OF h(1) h(2) order_refl h(3), of cfg30] h
  show ?thesis by (simp add: battle_first_def cfg30_def)
qed

text \<open>
  The claim as stated fails: after the tick on the first of two questions no entry
  has been appended to \<open>playerAnswers\<close>, and after the tick on the last question the
  status is still \<^verbatim>\<open>'battle'\<close>, not \<^verbatim>\<open>'completed'\<close>.
\<close>

theorem set_time_left_counterexample:
  "currentQuestion (battleReducer cfg30 battle_first (SET_TIME_LEFT 0)) = 1 \<and>
   playerAnswers (battleReducer cfg30 battle_first (SET_TIME_LEFT 0)) = [] \<and>
   length (playerAnswers (battleReducer cfg30 battle_first (SET_TIME_LEFT 0)))
     \<noteq> length (playerAnswers battle_first) + 1 \<and>
   currentQuestion battle_last = int (length (questions battle_last)) - 1 \<and>
   status (battleReducer cfg30 battle_last (SET_TIME_LEFT 0)) = ''battle'' \<and>
   status (battleReducer cfg30 battle_last (SET_TIME_LEFT 0)) \<noteq> ''completed'' \<and>
   timeLeft (battleReducer cfg30 battle_last (SET_TIME_LEFT 0)) = 0"
  by (simp add: battle_first_def battle_last_def cfg30_def)

subsection \<open>Removing an effect\<close>

text \<open>
  C10.  A \<^verbatim>\<open>REMOVE_EFFECT\<close> action whose effect type is neither \<^verbatim>\<open>'xp'\<close> nor
  \<^verbatim>\<open>'coins'\<close> leaves the whole game state unchanged; this holds in particular for
  the four type tags \<^verbatim>\<open>'xp_boost'\<close>, \<^verbatim>\<open>'coin_boost'\<close>, \<^verbatim>\<open>'score_boost'\<close> and
  \<^verbatim>\<open>'time_boost'\<close> that the expiry timers dispatch.
\<close>

theorem remove_effect_other_type_unchanged:
  "(effectType \<noteq> ''xp'' \<and> effectType \<noteq> ''coins''
      \<longrightarrow> gameReducer cqp st (REMOVE_EFFECT effectId effectType) = st) \<and>
   (\<forall>ty \<in> {''xp_boost'', ''coin_boost'', ''score_boost'', ''time_boost''}.
      gameReducer cqp st (REMOVE_EFFECT effectId ty) = st)"
  by auto

theorem remove_effect_other_type_unchanged_witness:
  "''xp_boost'' \<noteq> ''xp'' \<and> ''xp_boost'' \<noteq> ''coins'' \<and>
   ''xp_boost'' \<in> {''xp_boost'', ''coin_boost'', ''score_boost'', ''time_boost''} \<and>
   gameReducer cqp0 state_boosted (REMOVE_EFFECT ''e0'' ''xp_boost'') = state_boosted \<and>
   activeEffects (user (gameReducer cqp0 state_boosted (REMOVE_EFFECT ''e0'' ''xp_boost'')))
     = [boost_effect] \<and>
   mult_xp (rewardMultipliers
     (user (gameReducer cqp0 state_boosted (REMOVE_EFFECT ''e0'' ''xp_boost'')))) = 3 / 2"
proof -
  have "gameReducer cqp0 state_boosted (REMOVE_EFFECT ''e0'' ''xp_boost'') = state_boosted"
    using remove_effect_other_type_unchanged
            [where effectType = "''xp_boost''" and cqp = cqp0 and st = state_boosted
               and effectId = "''e0''"]
    by simp
  then show ?thesis by (simp add: state_boosted_def)
qed


subsection \<open>Coin debits\<close>




subsection \<open>Recovering a saved battle\<close>

lemma newest_None: "newest rs = None \<longleftrightarrow> rs = []"
  by (cases rs) (auto split: option.splits)

lemma deleteSave_removes: "r \<notin> set (battle_saves (deleteSave db (row_id r)))"
  by (simp add: deleteSave_def)

text \<open>
  C9.  With a database that answers, \<^verbatim>\<open>recoverBattleState\<close> returns \<^verbatim>\<open>null\<close> when the
  user has no save; when the newest save carries a time stamp more than one hour
  (3600000 ms) old it returns \<^verbatim>\<open>null\<close> and deletes that row; when the time stamp is
  at most one hour old it returns the saved battle and deletes the row as well.
\<close>

theorem recoverBattleState_stale:
  assumes "db_fault db = None"
  shows "(filter (\<lambda>r. row_user_id r = uid) (battle_saves db) = [] \<longrightarrow>
            recoverBattleState db uid now = (Inr None, db)) \<and>
         (\<forall>row saved t.
            newest (filter (\<lambda>r. row_user_id r = uid) (battle_saves db)) = Some row \<and>
            battle_state row = Some saved \<and> sv_timestamp saved = Some t \<longrightarrow>
            row \<notin> set (battle_saves (snd (recoverBattleState db uid now))) \<and>
            (now - t > 3600000 \<longrightarrow>
               recoverBattleState db uid now = (Inr None, deleteSave db (row_id row))) \<and>
            (now - t \<le> 3600000 \<longrightarrow>
               recoverBattleState db uid now = (Inr (Some saved), deleteSave db (row_id row))))"
  using assms
  by (auto simp: recoverBattleState_def selectLatestSave_def hourInMs_def deleteSave_def)


theorem recoverBattleState_stale_witness:
  "db_fault db0 = None \<and>
   filter (\<lambda>r. row_user_id r = ''u3'') (battle_saves db0) = [] \<and>
   recoverBattleState db0 ''u3'' 3600001 = (Inr None, db0) \<and>
   newest (filter (\<lambda>r. row_user_id r = ''u1'') (battle_saves db0)) = Some row_old \<and>
   3600001 - 0 > (3600000::int) \<and>
   recoverBattleState db0 ''u1'' 3600001 = (Inr None, deleteSave db0 1) \<and>
   battle_saves (deleteSave db0 1) = [row_new] \<and>
   newest (filter (\<lambda>r. row_user_id r = ''u2'') (battle_saves db0)) = Some row_new \<and>
   3600001 - 1000 \<le> (3600000::int) \<and>
   recoverBattleState db0 ''u2'' 3600001 = (Inr (Some saved_new), deleteSave db0 2) \<and>
   battle_saves (deleteSave db0 2) = [row_old]"
proof -
  have f: "db_fault db0 = None" by (simp add: db0_def)
  have n1: "newest (filter (\<lambda>r. row_user_id r = ''u1'') (battle_saves db0)) = Some row_old"
    by (simp add: db0_def row_old_def row_new_def)
  have n2: "newest (filter (\<lambda>r. row_user_id r = ''u2'') (battle_saves db0)) = Some row_new"
    by (simp add: db0_def row_old_def row_new_def)
  have n3: "filter (\<lambda>r. row_user_id r = ''u3'') (battle_saves db0) = []"
    by (simp add: db0_def row_old_def row_new_def)
  have b1: "battle_state row_old = Some saved_old" "sv_timestamp saved_old = Some 0"
    "row_id row_old = 1"
    by (simp_all add: row_old_def saved_old_def)
  have b2: "battle_state row_new = Some saved_new" "sv_timestamp saved_new = Some 1000"
    "row_id row_new = 2"
    by (simp_all add: row_new_def saved_new_def)
  have d: "battle_saves (deleteSave db0 1) = [row_new]" "battle_saves (deleteSave db0 2) = [row_old]"
    by (simp_all add: deleteSave_def db0_def row_old_def row_new_def)
  from recoverBattleState_stale [OF f, where uid = "''u3''" and now = 3600001] n3
  have r3: "recoverBattleState db0 ''u3'' 3600001 = (Inr None, db0)" by blast
  from recoverBattleState_stale [OF f, where uid = "''u1''" and now = 3600001] n1 b1
  have r1: "recoverBattleState db0 ''u1'' 3600001 = (Inr None, deleteSave db0 1)" by force
  from recoverBattleState_stale [OF f, where uid = "''u2''" and now = 3600001] n2 b2
  have r2: "recoverBattleState db0 ''u2'' 3600001 = (Inr (Some saved_new), deleteSave db0 2)"
    by force
  from f n1 n2 n3 d r1 r2 r3 show ?thesis by simp
qed

subsection \<open>Answer submission\<close>

text \<open>
  No action of the game reducer makes the status \<^verbatim>\<open>'active'\<close>: the battle is written
  by \<^verbatim>\<open>handleBattleStateUpdate\<close> only, which sets the status to \<^verbatim>\<open>'battle'\<close>,
  \<^verbatim>\<open>'complete'\<close> or \<^verbatim>\<open>'idle'\<close> or keeps it.
\<close>

lemma gameReducer_battle:
  "battle (gameReducer cqp st act) = handleBattleStateUpdate (battle st) act"
  by (cases act) (simp_all add: Let_def split: option.splits)

lemma handleBattleStateUpdate_not_active:
  "status b \<noteq> ''active'' \<Longrightarrow> status (handleBattleStateUpdate b act) \<noteq> ''active''"
  by (cases act) (simp_all add: Let_def)

lemma dispatchAll_not_active:
  "status (battle st) \<noteq> ''active'' \<Longrightarrow> status (battle (dispatchAll cqp st acts)) \<noteq> ''active''"
  unfolding dispatchAll_def
  by (induction acts arbitrary: st)
     (simp_all add: gameReducer_battle handleBattleStateUpdate_not_active)

lemma handleAnswer_cases:
  "handleAnswer m st a t = [] \<or> (\<exists>msg. handleAnswer m st a t = [SET_BATTLE_ERROR msg None])"
  by (simp add: handleAnswer_def split: option.splits)

lemma submitAnswer_battle: "battle (submitAnswer cqp m st a t) = battle st"
  using handleAnswer_cases [of m st a t]
  by (auto simp: submitAnswer_def dispatchAll_def)

text \<open>
  The reducer case \<^verbatim>\<open>ANSWER_QUESTION\<close> itself has no guard: dispatched twice it credits
  twice.  The guard is the one of the hook.
\<close>

lemma answer_question_reducer_unguarded:
  "player (score (battle (dispatchAll cqp0 state_in_battle
      [ANSWER_QUESTION True 0, ANSWER_QUESTION True 0]))) = Num 400 \<and>
   playerAnswers (battle (dispatchAll cqp0 state_in_battle
      [ANSWER_QUESTION True 0, ANSWER_QUESTION True 0])) = [True, True]"
  by code_simp

text \<open>
  C4.  Answer submission is guarded by the status: in every state whose status is
  not \<^verbatim>\<open>'active'\<close> the handler dispatches nothing, so the state after the submission
  is the state before it, and no sequence of actions of the game reducer leads from
  such a state to one with the status \<^verbatim>\<open>'active'\<close>.  In every state, whatever its
  status, the handler dispatches at most the one action \<^verbatim>\<open>SET_BATTLE_ERROR\<close> and never
  \<^verbatim>\<open>ANSWER_QUESTION\<close>, so a submission leaves the battle as it is, and after two
  submissions for the same question the score, the recorded answers and the
  question index are those from before the first: the score is credited at most
  once (it is not credited at all).
\<close>

theorem answer_credited_at_most_once:
  "(status (battle st) \<noteq> ''active'' \<longrightarrow>
      handleAnswer m st a t = [] \<and>
      submitAnswer cqp m st a t = st \<and>
      submitAnswer cqp m' (submitAnswer cqp m st a t) a' t' = st \<and>
      status (battle (dispatchAll cqp st acts)) \<noteq> ''active'') \<and>
   (\<forall>act \<in> set (handleAnswer m st a t). \<exists>msg. act = SET_BATTLE_ERROR msg None) \<and>
   battle (submitAnswer cqp m st a t) = battle st \<and>
   player (score (battle (submitAnswer cqp m' (submitAnswer cqp m st a t) a' t')))
     = player (score (battle st)) \<and>
   playerAnswers (battle (submitAnswer cqp m' (submitAnswer cqp m st a t) a' t'))
     = playerAnswers (battle st) \<and>
   currentQuestion (battle (submitAnswer cqp m' (submitAnswer cqp m st a t) a' t'))
     = currentQuestion (battle st)"
proof (intro conjI impI)
  assume n: "status (battle st) \<noteq> ''active''"
  then show e: "handleAnswer m st a t = []" by (simp add: handleAnswer_def)
  then show s: "submitAnswer cqp m st a t = st" by (simp add: submitAnswer_def dispatchAll_def)
  from n show "submitAnswer cqp m' (submitAnswer cqp m st a t) a' t' = st"
    unfolding s by (simp add: submitAnswer_def handleAnswer_def dispatchAll_def)
  from n show "status (battle (dispatchAll cqp st acts)) \<noteq> ''active''"
    by (rule dispatchAll_not_active)
next
  show "\<forall>act \<in> set (handleAnswer m st a t). \<exists>msg. act = SET_BATTLE_ERROR msg None"
    using handleAnswer_cases [of m st a t] by auto
next
  show "battle (submitAnswer cqp m st a t) = battle st" by (rule submitAnswer_battle)
next
  show "player (score (battle (submitAnswer cqp m' (submitAnswer cqp m st a t) a' t')))
     = player (score (battle st))"
    by (simp only: submitAnswer_battle)
next
  show "playerAnswers (battle (submitAnswer cqp m' (submitAnswer cqp m st a t) a' t'))
     = playerAnswers (battle st)"
    by (simp only: submitAnswer_battle)
next
  show "currentQuestion (battle (submitAnswer cqp m' (submitAnswer cqp m st a t) a' t'))
     = currentQuestion (battle st)"
    by (simp only: submitAnswer_battle)
qed

text \<open>
  Witness of C4: the battle right after \<^verbatim>\<open>INITIALIZE_BATTLE\<close> (status \<^verbatim>\<open>'battle'\<close>), where
  nothing is dispatched, also not after an \<^verbatim>\<open>ANSWER_QUESTION\<close> sent to the reducer
  directly; and the same battle with the status \<^verbatim>\<open>'active'\<close>, where the handler
  dispatches the error of the missing \<^verbatim>\<open>checkAnswer\<close> and the score stays 0 after two
  submissions.
\<close>

theorem answer_credited_at_most_once_witness:
  "status (battle state_in_battle) \<noteq> ''active'' \<and>
   handleAnswer True state_in_battle ''a'' 0 = [] \<and>
   submitAnswer cqp0 True (submitAnswer cqp0 True state_in_battle ''a'' 0) ''a'' 0
     = state_in_battle \<and>
   status (battle (dispatchAll cqp0 state_in_battle [ANSWER_QUESTION True 0])) \<noteq> ''active'' \<and>
   status (battle state_active) = ''active'' \<and>
   handleAnswer True state_active ''a'' 0 = [SET_BATTLE_ERROR checkAnswer_TypeError None] \<and>
   SET_BATTLE_ERROR checkAnswer_TypeError None \<in> set (handleAnswer True state_active ''a'' 0) \<and>
   player (score (battle state_active)) = Num 0 \<and>
   player (score (battle (submitAnswer cqp0 True
     (submitAnswer cqp0 True state_active ''a'' 0) ''a'' 0))) = Num 0"
proof -
  have n: "status (battle state_in_battle) \<noteq> ''active''"
    by (simp add: state_in_battle_def)
  have sa: "status (battle state_active) = ''active''"
    by (simp add: state_active_def)
  have h: "handleAnswer True state_active ''a'' 0 = [SET_BATTLE_ERROR checkAnswer_TypeError None]"
    by (simp add: handleAnswer_def questionAt_def state_active_def state_in_battle_def)
  then have mem: "SET_BATTLE_ERROR checkAnswer_TypeError None
                    \<in> set (handleAnswer True state_active ''a'' 0)"
    by simp
  have p: "player (score (battle state_active)) = Num 0"
    by (simp add: state_active_def state_in_battle_def)
  note w1 = answer_credited_at_most_once
         [where st = state_in_battle and m = True and a = "''a''" and t = 0 and cqp = cqp0
            and m' = True and a' = "''a''" and t' = 0 and acts = "[ANSWER_QUESTION True 0]"]
  note w2 = answer_credited_at_most_once
         [where st = state_active and m = True and a = "''a''" and t = 0 and cqp = cqp0
            and m' = True and a' = "''a''" and t' = 0 and acts = "[]"]
  from w1 n have a1: "handleAnswer True state_in_battle ''a'' 0 = []"
    and a2: "submitAnswer cqp0 True (submitAnswer cqp0 True state_in_battle ''a'' 0) ''a'' 0
               = state_in_battle"
    and a3: "status (battle (dispatchAll cqp0 state_in_battle [ANSWER_QUESTION True 0]))
               \<noteq> ''active''"
    by blast+
  from w2 mem have "\<exists>msg. SET_BATTLE_ERROR checkAnswer_TypeError None = SET_BATTLE_ERROR msg None"
    by blast
  from w2 p have b: "player (score (battle (submitAnswer cqp0 True
     (submitAnswer cqp0 True state_active ''a'' 0) ''a'' 0))) = Num 0"
    by simp
  show ?thesis
    by (rule conjI [OF n conjI [OF a1 conjI [OF a2 conjI [OF a3 conjI [OF sa conjI [OF h
          conjI [OF mem conjI [OF p b]]]]]]]])
qed

subsection \<open>Activating and expiring an effect\<close>

text \<open>
  C1 at a concrete input.  The XP potion (an \<^verbatim>\<open>xp_boost\<close> of value 1.5) is used from
  the multipliers \<open>(1, 1)\<close>: the XP multiplier becomes 1.5, and the removal that the
  handler schedules carries the type \<^verbatim>\<open>'xp_boost'\<close>, which the reducer ignores, so
  after the expiry the multiplier is still 1.5 and the effect is still listed.
  The coin potion (a \<^verbatim>\<open>coin_boost\<close> with the default value 1.5) makes the coin
  multiplier 1.5; a removal with the type \<^verbatim>\<open>'coins'\<close> divides by the constant 2 and
  leaves 0.75, not 1.
\<close>

theorem effect_expiry_not_reversed:
  "mult_xp (rewardMultipliers (user state0)) = 1 \<and>
   useItemEffect state0 uuid0 now0 ''xp_potion'' =
     ([ADD_EFFECT boost_effect,
       UPDATE_USER_PROFILE \<lparr> patch_coins = None,
         patch_rewardMultipliers = Some \<lparr> mult_xp = 3 / 2, mult_coins = 1 \<rparr> \<rparr>,
       ADD_ACTIVITY],
      [(300000, REMOVE_EFFECT ''e0'' ''xp_boost'')], None) \<and>
   mult_xp (rewardMultipliers (user state_xp_activated)) = 3 / 2 \<and>
   mult_xp (rewardMultipliers
     (user (gameReducer cqp0 state_xp_activated (REMOVE_EFFECT ''e0'' ''xp_boost'')))) = 3 / 2 \<and>
   activeEffects (user (gameReducer cqp0 state_xp_activated (REMOVE_EFFECT ''e0'' ''xp_boost'')))
     = [boost_effect] \<and>
   mult_coins (rewardMultipliers (user state0)) = 1 \<and>
   mult_coins (rewardMultipliers (user state_coin_activated)) = 3 / 2 \<and>
   mult_coins (rewardMultipliers
     (user (gameReducer cqp0 state_coin_activated (REMOVE_EFFECT ''e0'' ''coins'')))) = 3 / 4"
proof -
  have sn: "show_nat 0 = ''0''" by (subst show_nat.simps) simp
  have u: "useItemEffect state0 uuid0 now0 ''xp_potion'' =
     ([ADD_EFFECT boost_effect,
       UPDATE_USER_PROFILE \<lparr> patch_coins = None,
         patch_rewardMultipliers = Some \<lparr> mult_xp = 3 / 2, mult_coins = 1 \<rparr> \<rparr>,
       ADD_ACTIVITY],
      [(300000, REMOVE_EFFECT ''e0'' ''xp_boost'')], None)"
    by (simp add: useItemEffect_def state0_def user0_def xp_potion_def coin_potion_def
        uuid0_def now0_def boost_effect_def js_or_def Let_def sn)
  have c: "fst (useItemEffect state0 uuid0 now0 ''coin_potion'') =
     [ADD_EFFECT \<lparr> effect_id = ''e0'', effect_type = ''coin_boost'', effect_value = 3 / 2,
                   effect_startTime = now0, effect_duration = 300,
                   effect_sourceItem = (''coin_potion'', ''Coin Potion'') \<rparr>,
      UPDATE_USER_PROFILE \<lparr> patch_coins = None,
        patch_rewardMultipliers = Some \<lparr> mult_xp = 1, mult_coins = 3 / 2 \<rparr> \<rparr>,
      ADD_ACTIVITY]"
    by (simp add: useItemEffect_def state0_def user0_def xp_potion_def coin_potion_def
        uuid0_def js_or_def Let_def sn)
  have x: "rewardMultipliers (user state_xp_activated) = \<lparr> mult_xp = 3 / 2, mult_coins = 1 \<rparr>"
    "activeEffects (user state_xp_activated) = [boost_effect]"
    unfolding state_xp_activated_def u dispatchAll_def
    by (simp_all add: state0_def user0_def)
  have y: "rewardMultipliers (user state_coin_activated) = \<lparr> mult_xp = 1, mult_coins = 3 / 2 \<rparr>"
    unfolding state_coin_activated_def c dispatchAll_def
    by (simp add: state0_def user0_def)
  have z: "mult_xp (rewardMultipliers (user state0)) = 1"
    "mult_coins (rewardMultipliers (user state0)) = 1"
    by (simp_all add: state0_def user0_def)
  have x1: "mult_xp (rewardMultipliers
     (user (gameReducer cqp0 state_xp_activated (REMOVE_EFFECT ''e0'' ''xp_boost'')))) = 3 / 2"
    by (simp add: x)
  have x2: "activeEffects
     (user (gameReducer cqp0 state_xp_activated (REMOVE_EFFECT ''e0'' ''xp_boost'')))
     = [boost_effect]"
    by (simp add: x)
  have y1: "mult_coins (rewardMultipliers (user state_coin_activated)) = 3 / 2"
    by (simp add: y)
  have y2: "mult_coins (rewardMultipliers
     (user (gameReducer cqp0 state_coin_activated (REMOVE_EFFECT ''e0'' ''coins'')))) = 3 / 4"
    by (simp add: y)
  have x0: "mult_xp (rewardMultipliers (user state_xp_activated)) = 3 / 2"
    by (simp add: x)
  show ?thesis
    by (rule conjI [OF z(1) conjI [OF u conjI [OF x0 conjI [OF x1 conjI [OF x2
          conjI [OF z(2) conjI [OF y1 y2]]]]]]])
qed

subsection \<open>Granting XP\<close>

text \<open>
  C8 at a concrete input.  With an XP multiplier of 1.5 and a streak multiplier of
  1, a grant of 100 XP is rounded to 150 by the handler, which dispatches \<^verbatim>\<open>ADD_XP\<close>
  with the amount 150 and the multiplier 1.5; the reducer multiplies the amount by
  that multiplier and by the XP multiplier again, and the XP of the user goes from
  0 to 337.5 instead of 150.
\<close>

theorem xp_gain_scaled_again:
  "xp (user state_boosted) = 0 \<and>
   round (100 * (mult_xp (rewardMultipliers (user state_boosted))
                   * streakMultiplier (user state_boosted))) = 150 \<and>
   handleXPGain (calculateLevel levelConfig0) rewardConfig0 state_boosted 100 =
     ([ADD_ACTIVITY, ADD_XP 150 (Some (3 / 2))], None) \<and>
   xp (user (dispatchAll cqp0 state_boosted
     (fst (handleXPGain (calculateLevel levelConfig0) rewardConfig0 state_boosted 100)))) = 675 / 2"
proof -
  have u: "xp (user state_boosted) = 0" "level (user state_boosted) = 1"
    "mult_xp (rewardMultipliers (user state_boosted)) = 3 / 2"
    "streakMultiplier (user state_boosted) = 1"
    by (simp_all add: state_boosted_def state0_def user0_def)
  have h: "handleXPGain (calculateLevel levelConfig0) rewardConfig0 state_boosted 100 =
     ([ADD_ACTIVITY, ADD_XP 150 (Some (3 / 2))], None)"
    by code_simp
  have rr: "round (100 * (mult_xp (rewardMultipliers (user state_boosted))
                   * streakMultiplier (user state_boosted))) = 150"
    unfolding u by simp
  have f: "xp (user (dispatchAll cqp0 state_boosted
     (fst (handleXPGain (calculateLevel levelConfig0) rewardConfig0 state_boosted 100)))) = 675 / 2"
    unfolding h dispatchAll_def
    by (simp add: state_boosted_def state0_def user0_def Let_def)
  show ?thesis by (rule conjI [OF u(1) conjI [OF rr conjI [OF h f]]])
qed

text \<open>
  The level-up branch of the same handler: the coins of the level-up reward go
  through \<^verbatim>\<open>handleCoinTransaction\<close> with the source \<^verbatim>\<open>'level_up'\<close>, which is not
  \<^verbatim>\<open>'earn'\<close> and so is a debit.  For a user with 10 coins who reaches level 2 (reward
  100 coins) the handler throws the insufficient-coins error after \<^verbatim>\<open>LEVEL_UP\<close>.
\<close>

text \<open>
  The products are doubles: with an XP multiplier of 1.1 and a streak multiplier of
  1.15 the multiplier is the double 1.2649999999999999, the product with 100 is
  126.49999999999999, and the handler grants 126 where the exact product 126.5 would
  round to 127.
\<close>

lemma xp_gain_in_doubles:
  "handleXPGain (calculateLevel levelConfig0) rewardConfig0
     (state0 \<lparr> user := user0 \<lparr> rewardMultipliers := \<lparr> mult_xp = rnd (11 / 10), mult_coins = 1 \<rparr>,
                               streakMultiplier := rnd (115 / 100) \<rparr> \<rparr>) 100 =
     ([ADD_ACTIVITY, ADD_XP 126 (Some (rnd (rnd (11 / 10) * rnd (115 / 100))))], None) \<and>
   round (100 * ((11 / 10) * (115 / 100)) :: rat) = 127"
  by code_simp

lemma xp_gain_level_up_debits_coins:
  "handleXPGain (calculateLevel levelConfig0) rewardConfig0 state0 1000 =
     ([ADD_ACTIVITY, ADD_XP 1000 (Some 1),
       LEVEL_UP 2 \<lparr> lu_xp = 200, lu_coins = 100, lu_items = [] \<rparr>],
      Some InsufficientCoins)"
  by code_simp

subsection \<open>Quest progress\<close>

text \<open>
  What the handler computes, for a quest whose requirements have pairwise different
  types: the entry of the progress map for the incremented requirement is
  \<open>min (current + increment) target\<close>, the others keep their progress.
\<close>

lemma foldl_upd_lookup:
  "distinct (map req_type reqs) \<Longrightarrow> r \<in> set reqs \<Longrightarrow>
   foldl (\<lambda>m req. m(req_type req \<mapsto> f req)) m0 reqs (req_type r) = Some (f r)"
  by (induction reqs rule: rev_induct) (auto simp: image_iff)

lemma buildProgressMap_lookup:
  "distinct (map req_type reqs) \<Longrightarrow> r \<in> set reqs \<Longrightarrow>
   buildProgressMap reqs (req_type r) = Some (js_or_num (current r) (Num 0), target r)"
  unfolding buildProgressMap_def by (rule foldl_upd_lookup)

lemma bumped_lookup:
  assumes "distinct (map req_type reqs)" "r \<in> set reqs"
  shows "bumpProgress (buildProgressMap reqs) ty inc (req_type r) =
           (if req_type r = ty
            then Some (js_min (js_add (js_or_num (current r) (Num 0)) (Num inc)) (Num (target r)),
                       target r)
            else Some (js_or_num (current r) (Num 0), target r))"
  using buildProgressMap_lookup [OF assms]
  by (auto simp: bumpProgress_def split: option.splits)

lemma js_or_num_not_NaN: "js_or_num a (Num 0) \<noteq> NaN"
  by (simp add: js_or_num_def split: option.splits)

lemma js_or_num_idem: "js_or_num (Some (js_or_num a (Num 0))) (Num 0) = js_or_num a (Num 0)"
  by (simp add: js_or_num_def split: option.splits)

lemma dbl_not_NaN: "dbl x \<noteq> NaN"
  by (simp add: dbl_def Let_def)

lemma js_add_Num_not_NaN: "c \<noteq> NaN \<Longrightarrow> js_add c (Num x) \<noteq> NaN"
  by (cases c) (simp_all add: dbl_not_NaN)

lemma js_min_Num_le: "c \<noteq> NaN \<Longrightarrow> js_min c (Num t) \<noteq> NaN \<and> js_le (js_min c (Num t)) (Num t)"
  by (cases c) (auto simp: js_min_def)

text \<open>
  The clamped progress is a number (not \<^verbatim>\<open>NaN\<close>) that is at most the target, and the
  default \<^verbatim>\<open>|| 0\<close> leaves it as it is.
\<close>

lemma clamped_le_target:
  "js_le (js_min (js_add (js_or_num c (Num 0)) (Num inc)) (Num t)) (Num t) \<and>
   js_or_num (Some (js_min (js_add (js_or_num c (Num 0)) (Num inc)) (Num t))) (Num 0)
     = js_min (js_add (js_or_num c (Num 0)) (Num inc)) (Num t)"
proof -
  have "js_add (js_or_num c (Num 0)) (Num inc) \<noteq> NaN"
    by (rule js_add_Num_not_NaN) (rule js_or_num_not_NaN)
  from js_min_Num_le [OF this, of t] show ?thesis
    by (auto simp: js_or_num_def)
qed

lemma mapCurrent_bumped:
  assumes "distinct (map req_type reqs)" "r \<in> set reqs"
  shows "mapCurrent (bumpProgress (buildProgressMap reqs) ty inc) (req_type r) =
           (if req_type r = ty
            then js_min (js_add (js_or_num (current r) (Num 0)) (Num inc)) (Num (target r))
            else js_or_num (current r) (Num 0))"
  by (simp add: mapCurrent_def bumped_lookup [OF assms] clamped_le_target js_or_num_idem)

lemma target_updated [simp]: "map target (updatedRequirements m reqs) = map target reqs"
  by (simp add: updatedRequirements_def comp_def)

lemma type_updated [simp]: "map req_type (updatedRequirements m reqs) = map req_type reqs"
  by (simp add: updatedRequirements_def comp_def)

lemma current_updated:
  "map current (updatedRequirements m reqs) = map (\<lambda>r. Some (mapCurrent m (req_type r))) reqs"
  by (simp add: updatedRequirements_def comp_def)

text \<open>
  The requirements that the handler computes hold, for the incremented requirement,
  the progress \<open>min (current + increment) target\<close>, which is at most the target.
\<close>

lemma requirement_clamped:
  assumes "distinct (map req_type reqs)" "r \<in> set reqs"
  shows "r \<lparr> current := Some (js_min (js_add (js_or_num (current r) (Num 0)) (Num inc))
                                    (Num (target r))) \<rparr>
           \<in> set (updatedRequirements (bumpProgress (buildProgressMap reqs) (req_type r) inc) reqs)
         \<and> js_le (js_min (js_add (js_or_num (current r) (Num 0)) (Num inc)) (Num (target r)))
                 (Num (target r))"
proof
  let ?m = "bumpProgress (buildProgressMap reqs) (req_type r) inc"
  let ?v = "js_min (js_add (js_or_num (current r) (Num 0)) (Num inc)) (Num (target r))"
  let ?f = "\<lambda>req. req \<lparr> target := target req, current := Some (mapCurrent ?m (req_type req)) \<rparr>"
  have c: "mapCurrent ?m (req_type r) = ?v"
    by (simp add: mapCurrent_bumped [OF assms])
  have "?f r \<in> ?f ` set reqs"
    using assms(2) by (rule imageI)
  moreover have "?f r = r \<lparr> current := Some ?v \<rparr>"
    by (simp add: c)
  ultimately show "r \<lparr> current := Some ?v \<rparr> \<in> set (updatedRequirements ?m reqs)"
    by (simp add: updatedRequirements_def)
next
  show "js_le (js_min (js_add (js_or_num (current r) (Num 0)) (Num inc)) (Num (target r)))
                 (Num (target r))"
    using clamped_le_target [of "current r" inc "target r"] by blast
qed

text \<open>
  When not every requirement is complete, the handler stores the clamped
  requirements and the overall progress in the quest.
\<close>

lemma quest_progress_stored_when_incomplete:
  assumes found: "find (\<lambda>q'. quest_id q' = quest_id q \<and> quest_status q' \<noteq> Some COMPLETED
                              \<and> is_active q') (quests (user st)) = Some uq"
    and m: "m = bumpProgress (buildProgressMap (requirements uq)) (req_type requirement) inc"
    and notDone: "\<not> allCompleted m (updatedRequirements m (requirements uq))"
    and ov: "overall = overallProgress m (updatedRequirements m (requirements uq))"
  shows "quests (user (dispatchAll cqp st (handleQuestProgress st q requirement inc))) =
           map (\<lambda>q'. if quest_id q' = quest_id q
                      then q' \<lparr> requirements := updatedRequirements m (requirements uq),
                                progress := Some overall \<rparr>
                      else q') (quests (user st))"
proof -
  have h: "handleQuestProgress st q requirement inc =
     [ UPDATE_QUEST_PROGRESS (quest_id q) (req_type requirement) overall,
       UPDATE_QUESTS
         (map (\<lambda>q'. if quest_id q' = quest_id q
                     then q' \<lparr> requirements := updatedRequirements m (requirements uq),
                               progress := Some overall \<rparr>
                     else q') (quests (user st))) ]"
    using notDone by (simp add: handleQuestProgress_def found m [symmetric] Let_def ov)
  show ?thesis unfolding h by (simp add: dispatchAll_def)
qed

text \<open>
  Sums of doubles are monotone, and so are the quotient, the product and the floor of
  the overall progress.
\<close>

lemma js_add_mono:
  assumes "js_le A B \<or> B = PosInfinity" "js_le c (Num t)" "B \<noteq> NaN"
  shows "js_le (js_add A c) (js_add B (Num t)) \<or> js_add B (Num t) = PosInfinity"
proof (cases B)
  case (Num b)
  with assms(1) have ab: "js_le A (Num b)" by simp
  show ?thesis
  proof (cases A)
    case (Num a)
    with ab have le: "a \<le> b" by simp
    show ?thesis
    proof (cases c)
      case (Num x)
      with assms(2) have "x \<le> t" by simp
      with le have "a + x \<le> b + t" by simp
      from dbl_mono [OF this] show ?thesis using Num \<open>A = Num a\<close> \<open>B = Num b\<close> by simp
    next
      case NegInfinity
      have "dbl (b + t) \<noteq> NaN" by (rule dbl_not_NaN)
      then have "js_le NegInfinity (dbl (b + t))" by (cases "dbl (b + t)") simp_all
      then show ?thesis using NegInfinity \<open>A = Num a\<close> \<open>B = Num b\<close> by simp
    qed (use assms(2) in simp_all)
  next
    case NegInfinity
    have n: "dbl (b + t) \<noteq> NaN" by (rule dbl_not_NaN)
    then have l: "js_le NegInfinity (dbl (b + t))" by (cases "dbl (b + t)") simp_all
    from assms(2) have "js_add NegInfinity c = NegInfinity" by (cases c) simp_all
    with l show ?thesis using NegInfinity \<open>B = Num b\<close> by simp
  qed (use ab in simp_all)
next
  case PosInfinity
  then show ?thesis by simp
next
  case NegInfinity
  with assms(1) have "A = NegInfinity" by (cases A) simp_all
  moreover from assms(2) have "js_add NegInfinity c = NegInfinity" by (cases c) simp_all
  ultimately show ?thesis using NegInfinity by simp
next
  case NaN
  with assms(3) show ?thesis by simp
qed

lemma foldl_js_add_mono:
  assumes "\<forall>r \<in> set reqs. js_le (c r) (Num (t r))"
    and "js_le A B \<or> B = PosInfinity" and "B \<noteq> NaN"
  shows "js_le (foldl (\<lambda>acc r. js_add acc (c r)) A reqs) (foldl (\<lambda>acc r. js_add acc (Num (t r))) B reqs)
         \<or> foldl (\<lambda>acc r. js_add acc (Num (t r))) B reqs = PosInfinity"
  using assms
proof (induction reqs arbitrary: A B)
  case Nil
  then show ?case by simp
next
  case (Cons r reqs)
  from Cons.prems(1) have h: "js_le (c r) (Num (t r))" "\<forall>r \<in> set reqs. js_le (c r) (Num (t r))"
    by simp_all
  from js_add_mono [OF Cons.prems(2) h(1) Cons.prems(3)]
  have s: "js_le (js_add A (c r)) (js_add B (Num (t r))) \<or> js_add B (Num (t r)) = PosInfinity" .
  have n: "js_add B (Num (t r)) \<noteq> NaN" using Cons.prems(3) by (rule js_add_Num_not_NaN)
  from Cons.IH [OF h(2) s n] show ?case by simp
qed

lemma percent_at_most_100:
  assumes "js_le A (Num b)" "0 < b"
  shows "js_le (js_floor (js_mul (js_div A (Num b)) (Num 100))) (Num 100)"
proof (cases A)
  case (Num a)
  with assms have "a / b \<le> 1" by simp
  from dbl_mono [OF this] have q: "js_le (dbl (a / b)) (Num 1)" by (simp add: dbl_1)
  have d: "js_div A (Num b) = dbl (a / b)" using Num assms(2) by simp
  show ?thesis
  proof (cases "dbl (a / b)")
    case (Num q')
    with q have "q' * 100 \<le> 100" by simp
    from dbl_mono [OF this] have p: "js_le (dbl (q' * 100)) (Num 100)" by (simp add: dbl_100)
    show ?thesis
    proof (cases "dbl (q' * 100)")
      case (Num p')
      with p have "p' \<le> 100" by simp
      then have "\<lfloor>p'\<rfloor> \<le> 100" by linarith
      then have "(of_int \<lfloor>p'\<rfloor> :: rat) \<le> of_int 100" by (simp only: of_int_le_iff)
      then show ?thesis using Num \<open>dbl (a / b) = Num q'\<close> d by (simp add: js_floor_def)
    next
      case NegInfinity
      then show ?thesis using \<open>dbl (a / b) = Num q'\<close> d by (simp add: js_floor_def)
    qed (use p in simp_all)
  next
    case NegInfinity
    then show ?thesis using d by (simp add: js_floor_def js_inf_def js_sgn_def)
  qed (use q in simp_all)
next
  case NegInfinity
  then show ?thesis using assms(2) by (simp add: js_floor_def js_inf_def js_sgn_def)
qed (use assms(1) in simp_all)

text \<open>
  The overall progress that the handler computes does not exceed 100 when no
  requirement is above its target before the update and the total target is positive.
\<close>

lemma overall_at_most_100:
  assumes d: "distinct (map req_type reqs)"
    and le: "\<forall>r \<in> set reqs. js_le (js_or_num (current r) (Num 0)) (Num (target r))"
    and tot: "foldl (\<lambda>acc req. js_add acc (Num (target req))) (Num 0) reqs = Num b"
    and pos: "0 < b"
    and m: "m = bumpProgress (buildProgressMap reqs) ty inc"
  shows "js_le (overallProgress m (updatedRequirements m reqs)) (Num 100)"
proof -
  have c: "\<forall>r \<in> set reqs. js_le (mapCurrent m (req_type r)) (Num (target r))"
  proof
    fix r assume r: "r \<in> set reqs"
    from le r have "js_le (js_or_num (current r) (Num 0)) (Num (target r))" by blast
    then show "js_le (mapCurrent m (req_type r)) (Num (target r))"
      using clamped_le_target [of "current r" inc "target r"]
      by (simp add: m mapCurrent_bumped [OF d r])
  qed
  have z: "js_le (Num 0) (Num 0) \<or> Num 0 = PosInfinity" by simp
  from foldl_js_add_mono [OF c z] tot
  have ct: "js_le (foldl (\<lambda>acc r. js_add acc (mapCurrent m (req_type r))) (Num 0) reqs) (Num b)"
    by simp
  have t: "foldl (\<lambda>acc req. js_add acc (Num (target req))) (Num 0) (updatedRequirements m reqs) = Num b"
    using tot by (simp add: updatedRequirements_def foldl_map)
  have u: "foldl (\<lambda>acc req. js_add acc (mapCurrent m (req_type req))) (Num 0)
             (updatedRequirements m reqs) =
           foldl (\<lambda>acc r. js_add acc (mapCurrent m (req_type r))) (Num 0) reqs"
    by (simp add: updatedRequirements_def foldl_map)
  show ?thesis
    unfolding overallProgress_def Let_def t u by (rule percent_at_most_100 [OF ct pos])
qed

text \<open>
  The overall progress is computed in doubles: with 29 of 100 done the quotient
  \<open>29 / 100\<close> is rounded to a double below 0.29, its product with 100 is
  28.999999999999996, and the floor is 28.  With a total target of 0 the result is
  \<^verbatim>\<open>NaN\<close>.
\<close>

lemma overallProgress_in_doubles:
  "overallProgress [''battles'' \<mapsto> (Num 29, 100)]
     [\<lparr> req_id = ''r1'', req_type = ''battles'', target = 100, current = Some (Num 29) \<rparr>] = Num 28 \<and>
   overallProgress [''battles'' \<mapsto> (Num 0, 0)]
     [\<lparr> req_id = ''r1'', req_type = ''battles'', target = 0, current = Some (Num 0) \<rparr>] = NaN"
  by code_simp

text \<open>
  C6 at a concrete input.  The quest has one requirement with target 5 and current
  progress 4; the progress is incremented by 3.  The handler clamps to
  \<open>min (4 + 3) 5 = 5\<close>, finds every requirement complete, and dispatches the
  completion actions, the last of which is \<^verbatim>\<open>UPDATE_QUEST_PROGRESS\<close> with the
  progress 100; the reducer writes that 100 into the current progress of the
  requirement.  After the update the requirement stands at 100, above its target 5.
\<close>

theorem quest_completion_overwrites_requirement:
  "handleQuestProgress state0 quest5 (hd (requirements quest5)) 3 =
     [ADD_XP 10 (Some 1), ADD_COINS 5, ADD_ACTIVITY, COMPLETE_QUEST quest5 10 5,
      UPDATE_QUEST_PROGRESS ''q5'' ''battles'' (Num 100)] \<and>
   map (\<lambda>q. map (\<lambda>r. (target r, current r)) (requirements q))
       (quests (user (state_after_quest5 cqp))) = [ [(5, Some (Num 100))] ] \<and>
   map (\<lambda>q. map (\<lambda>r. (target r, current r)) (requirements q))
       (quests (user state0)) = [ [(5, Some (Num 4))] ] \<and>
   js_min (js_add (Num 4) (Num 3)) (Num 5) = Num 5 \<and>
   min (4 + 3) (5 :: rat) = 5"
proof -
  have h: "handleQuestProgress state0 quest5 (hd (requirements quest5)) 3 =
     [ADD_XP 10 (Some 1), ADD_COINS 5, ADD_ACTIVITY, COMPLETE_QUEST quest5 10 5,
      UPDATE_QUEST_PROGRESS ''q5'' ''battles'' (Num 100)]"
    by code_simp
  have q: "quests (user state0) = [quest5]" by (simp add: state0_def user0_def)
  have a: "map (\<lambda>q. map (\<lambda>r. (target r, current r)) (requirements q))
       (quests (user (state_after_quest5 cqp))) = [ [(5, Some (Num 100))] ]"
    unfolding state_after_quest5_def h dispatchAll_def
    by (simp add: Let_def state0_def user0_def quest5_def)
  have b0: "map (\<lambda>q. map (\<lambda>r. (target r, current r)) (requirements q))
       (quests (user state0)) = [ [(5, Some (Num 4))] ]"
    by (simp add: q quest5_def)
  have mj: "js_min (js_add (Num 4) (Num 3)) (Num 5) = Num 5" by code_simp
  have mn: "min (4 + 3) (5 :: rat) = 5" by simp
  show ?thesis by (rule conjI [OF h conjI [OF a conjI [OF b0 conjI [OF mj mn]]]])
qed

end
